theory Spec2Isabelle
  imports Main "HOL-Library.Char_ord" "HOL-Library.List_Lexorder"
begin

section \<open>Data model\<close>

text \<open>
  The debate platform keeps its live sessions in a \<open>DebateManager\<close>: a map from
  debate id to \<open>ActiveDebate\<close>, a SQLite store, and a channel towards the observers.
  Go strings are byte strings, here \<open>string\<close>; Go's \<open>int\<close> is modelled by \<open>int\<close>
  (the only arithmetic is on transcript lengths and round counters, far from the
  64-bit range). Wall-clock time is an input: every operation that reads
  \<open>time.Now()\<close> takes the current time, in seconds, as a parameter.
\<close>

type_synonym time = int

text \<open>
  The creation time of a debate is read by the program in one place only, the
  \<open>ORDER BY d.created_at\<close> of \<open>GetAvailableDebate\<close>. The store does not hold an
  instant there: the driver writes a \<open>time.Time\<close> as the text of its layout
  \<open>2006-01-02 15:04:05.999999999-07:00\<close>, the local time followed by the zone
  offset, and SQLite compares such texts byte by byte. \<open>CreatedAt\<close> is therefore
  kept as that text, and its order is the order of byte strings (bytes as
  unsigned numbers, a proper prefix before its extensions). \<open>UpdatedAt\<close> is only
  ever written.
\<close>

record Debate =
  ID :: string
  Topic :: string
  TotalRounds :: int
  CurrentRound :: int
  Status :: string
  CreatedAt :: string
  UpdatedAt :: time

record Bot =
  BotName :: string
  BotUUID :: string
  BotIdentifier :: string
  DebateID :: string
  DebateKey :: string
  Side :: string
  ConnectedAt :: time

record SpeechMessage =
  Format :: string
  Content :: string

record DebateLogEntry =
  le_Round :: int
  le_Speaker :: string
  le_Side :: string
  le_Timestamp :: time
  le_Message :: SpeechMessage

text \<open>
  The end-reason description and the summary of a result are \<open>fmt.Sprintf\<close> of
  fixed (Chinese) templates; they are kept as the template chosen together with its
  arguments.
\<close>

datatype ReasonDescription =
    ReasonCompleted
  | ReasonSpeechTimeout int
  | ReasonInactivity int
  | ReasonMaxDuration int
  | ReasonBotDisconnected string
  | ReasonHeartbeatTimeout string
  | ReasonOther string

datatype SummaryContent =
    SummaryTimeoutNoSpeech string string string ReasonDescription
  | SummaryTimeoutOneSide string string int string int ReasonDescription
  | SummaryScores string string int int string int int string
  | SummaryJudge string
  | SummaryUnparsed string

record DebateResult =
  Winner :: string
  SupportingScore :: int
  OpposingScore :: int
  Summary :: SummaryContent
  Reason :: string

text \<open>
  A \<open>*time.Timer\<close> made by \<open>time.AfterFunc\<close>: it runs until its deadline unless
  \<open>Stop\<close> is called first; stopping a stopped or fired timer changes nothing.
\<close>

datatype Timer = Running time | Stopped | Fired

text \<open>
  \<open>Conn\<close> is the handle of the bot's websocket connection. The heartbeat fields of
  \<open>ConnectedBot\<close> are never read or written by the program and are left out.
  \<open>SupportingBot\<close> and \<open>OpposingBot\<close> are copies of the pointers \<open>BotA\<close> and
  \<open>BotB\<close>; once they are set no code writes through \<open>BotA\<close> or \<open>BotB\<close> again,
  so the copies are kept by value.
\<close>

record ConnectedBot =
  Bot :: Bot
  Conn :: nat

record ActiveDebate =
  Debate :: Debate
  BotA :: "ConnectedBot option"
  BotB :: "ConnectedBot option"
  SupportingBot :: "ConnectedBot option"
  OpposingBot :: "ConnectedBot option"
  DebateLog :: "DebateLogEntry list"
  LastSpeaker :: string
  WaitingTimer :: "Timer option"
  TimeoutTimer :: "Timer option"
  InactivityTimer :: "Timer option"
  MaxDurationTimer :: "Timer option"
  StartTime :: time
  LastActivityTime :: time

subsection \<open>Protocol messages\<close>

record LoginRequest =
  req_BotName :: string
  req_BotUUID :: string
  req_DebateID :: string

record LoginConfirmed =
  lc_Status :: string
  lc_Message :: string
  lc_DebateID :: string
  lc_DebateKey :: string
  lc_BotIdentifier :: string
  lc_Topic :: string
  lc_JoinedBots :: "string list"

record LoginRejected =
  rej_Status :: string
  rej_Reason :: string
  rej_Message :: string
  rej_DebateID :: string
  rej_RetryAfter :: int

record DebateSpeech =
  sp_DebateID :: string
  sp_DebateKey :: string
  sp_Speaker :: string
  sp_Message :: SpeechMessage

record ErrorMessage =
  ErrorCode :: string
  err_Message :: string
  err_DebateID :: string
  Recoverable :: bool

record DebateStart =
  ds_DebateID :: string
  ds_Topic :: string
  ds_SupportingSide :: string
  ds_OpposingSide :: string
  ds_TotalRounds :: int
  ds_CurrentRound :: int
  ds_YourSide :: string
  ds_YourIdentifier :: string
  ds_NextSpeaker :: string
  ds_TimeoutSeconds :: int
  ds_MinContentLength :: int
  ds_MaxContentLength :: int

record DebateUpdate =
  du_DebateID :: string
  du_Topic :: string
  du_SupportingSide :: string
  du_OpposingSide :: string
  du_TotalRounds :: int
  du_CurrentRound :: int
  du_YourSide :: string
  du_YourIdentifier :: string
  du_NextSpeaker :: string
  du_TimeoutSeconds :: int
  du_MinContentLength :: int
  du_MaxContentLength :: int
  du_DebateLog :: "DebateLogEntry list"

record DebateEnd =
  de_DebateID :: string
  de_Topic :: string
  de_SupportingSide :: string
  de_OpposingSide :: string
  de_TotalRounds :: int
  de_Status :: string
  de_DebateLog :: "DebateLogEntry list"
  de_DebateResult :: DebateResult

record DebateWaiting =
  dw_DebateID :: string
  dw_Topic :: string
  dw_TotalRounds :: int
  dw_Status :: string
  dw_JoinedBots :: "string list"

text \<open>\<open>createMessage\<close> tags the payload with its type; the constructor is the tag.\<close>

datatype Message =
    debate_waiting DebateWaiting
  | debate_start DebateStart
  | debate_update DebateUpdate
  | debate_end DebateEnd

record BroadcastMessage =
  bm_DebateID :: string
  bm_Message :: Message

subsection \<open>The store, the manager, the environment\<close>

text \<open>
  The four SQLite tables, rows in insertion order. The store is taken to be
  available: a statement fails only for a reason SQLite itself reports (no row for a
  query, a primary-key conflict for an insert).
\<close>

record Database =
  debates_table :: "Debate list"
  bots_table :: "Bot list"
  debate_log_table :: "(string \<times> DebateLogEntry) list"
  debate_results_table :: "(string \<times> DebateResult) list"

text \<open>
  \<open>sent\<close> records every \<open>WriteJSON\<close> on a bot connection, \<open>broadcast\<close> every message
  put on the channel to the observer relay, both oldest first.
\<close>

record DebateManager =
  debates :: "string \<rightharpoonup> ActiveDebate"
  db :: Database
  broadcast :: "BroadcastMessage list"
  sent :: "(nat \<times> Message) list"

text \<open>\<open>WaitingTimeout\<close> is read by \<open>startWaitingTimer\<close>; its declaration is not in
  the \<open>Config\<close> struct shown in config.go and is taken as one more field.\<close>

record Config =
  SpeechTimeout :: int
  InactivityTimeout :: int
  MaxDuration :: int
  WaitingTimeout :: int
  MinContentLength :: int
  MaxContentLength :: int

record ChatGPTClient =
  APIKey :: string

record judgeData =
  jd_Winner :: string
  jd_SupportingScore :: int
  jd_OpposingScore :: int
  jd_Summary :: string

text \<open>
  What the program takes from outside itself: the globals \<open>config\<close> and
  \<open>chatgptClient\<close>, the reply of the completion service to the judge prompt built
  from topic, transcript and the two identifiers (\<open>None\<close> when the HTTP exchange
  fails in any way), and the library functions \<open>json.Unmarshal\<close> (into the judge's
  struct) and \<open>strings.TrimSpace\<close>.
\<close>

record Env =
  config :: Config
  chatgptClient :: "ChatGPTClient option"
  completion :: "string \<Rightarrow> DebateLogEntry list \<Rightarrow> string \<Rightarrow> string \<Rightarrow> string option"
  json_Unmarshal :: "string \<Rightarrow> judgeData option"
  TrimSpace :: "string \<Rightarrow> string"

text \<open>The outcome of a Go call: a panic, a non-nil \<open>error\<close>, or a value.\<close>

datatype 'a outcome = Panics | Fails | Returns 'a

section \<open>The deterministic scorer of generateDebateResult\<close>

text \<open>The counting loop over the transcript: an entry whose side is not
  \<open>supporting\<close> counts for the opposing side.\<close>

fun countSpeeches :: "DebateLogEntry list \<Rightarrow> int \<times> int \<Rightarrow> int \<times> int" where
  "countSpeeches [] (supportingCount, opposingCount) = (supportingCount, opposingCount)"
| "countSpeeches (entry # rest) (supportingCount, opposingCount) =
     (if le_Side entry = ''supporting''
      then countSpeeches rest (supportingCount + 1, opposingCount)
      else countSpeeches rest (supportingCount, opposingCount + 1))"

definition capScore :: "int \<Rightarrow> int" where
  "capScore score = (if score > 50 then 50 else score)"

text \<open>Lines 682 to 695: raw scores, the cap, and the normalisation. Go's \<open>/\<close>
  truncates; both operands are positive here, where it agrees with \<open>div\<close>.\<close>

definition fallbackScores :: "int \<Rightarrow> int \<Rightarrow> int \<times> int" where
  "fallbackScores supportingCount opposingCount =
     (let supportingScore = capScore (45 + supportingCount * 2);
          opposingScore = capScore (45 + opposingCount * 2);
          total = supportingScore + opposingScore;
          supportingScore' = supportingScore * 100 div total;
          opposingScore' = 100 - supportingScore'
      in (supportingScore', opposingScore'))"

text \<open>Lines 697 to 707: the winner starts as \<open>none\<close> and is only overwritten by a
  side that leads by more than five points when both sides have spoken.\<close>

definition fallbackWinner :: "int \<Rightarrow> int \<Rightarrow> int \<Rightarrow> int \<Rightarrow> string" where
  "fallbackWinner supportingCount opposingCount supportingScore opposingScore =
     (if supportingCount > 0 \<and> opposingCount > 0 then
        (if supportingScore > opposingScore + 5 then ''supporting''
         else if opposingScore > supportingScore + 5 then ''opposing''
         else ''none'')
      else ''none'')"

section \<open>The external judge (chatgpt.go)\<close>

text \<open>\<open>strings.Index\<close> and \<open>strings.LastIndex\<close> for a one-byte pattern; \<open>None\<close> is
  Go's \<open>-1\<close>.\<close>

fun Index :: "string \<Rightarrow> char \<Rightarrow> nat option" where
  "Index [] c = None"
| "Index (x # xs) c = (if x = c then Some 0 else map_option Suc (Index xs c))"

definition LastIndex :: "string \<Rightarrow> char \<Rightarrow> nat option" where
  "LastIndex s c = map_option (\<lambda>i. length s - 1 - i) (Index (rev s) c)"

text \<open>\<open>s[lo:hi]\<close> panics unless \<open>lo \<le> hi \<le> len(s)\<close>.\<close>

definition slice :: "string \<Rightarrow> nat \<Rightarrow> nat \<Rightarrow> string outcome" where
  "slice s lo hi =
     (if lo \<le> hi \<and> hi \<le> length s then Returns (take (hi - lo) (drop lo s)) else Panics)"

definition parseJudgeResponse :: "Env \<Rightarrow> string \<Rightarrow> DebateResult outcome" where
  "parseJudgeResponse e response =
     (case (Index response CHR ''{'', LastIndex response CHR ''}'') of
        (Some startIdx, Some endIdx) \<Rightarrow>
          (case slice response startIdx (endIdx + 1) of
             Panics \<Rightarrow> Panics
           | Fails \<Rightarrow> Fails
           | Returns jsonStr \<Rightarrow>
               (case json_Unmarshal e jsonStr of
                  None \<Rightarrow> Fails
                | Some judgeData \<Rightarrow>
                    (let supportingScore =
                           (if jd_SupportingScore judgeData < 0 \<or> jd_SupportingScore judgeData > 100
                            then 50 else jd_SupportingScore judgeData);
                         opposingScore =
                           (if jd_OpposingScore judgeData < 0 \<or> jd_OpposingScore judgeData > 100
                            then 50 else jd_OpposingScore judgeData);
                         winner =
                           (if jd_Winner judgeData \<noteq> ''supporting'' \<and>
                               jd_Winner judgeData \<noteq> ''opposing'' \<and>
                               jd_Winner judgeData \<noteq> ''draw''
                            then ''draw'' else jd_Winner judgeData)
                     in Returns \<lparr>Winner = winner, SupportingScore = supportingScore,
                          OpposingScore = opposingScore,
                          Summary = SummaryJudge (jd_Summary judgeData), Reason = ''''\<rparr>)))
      | _ \<Rightarrow> Fails)"

definition SendMessage ::
  "Env \<Rightarrow> ChatGPTClient \<Rightarrow> string \<Rightarrow> DebateLogEntry list \<Rightarrow> string \<Rightarrow> string \<Rightarrow> string outcome" where
  "SendMessage e c topic debateLog supportingBot opposingBot =
     (if APIKey c = '''' \<or> APIKey c = ''your-api-key-here'' then Fails
      else (case completion e topic debateLog supportingBot opposingBot of
              None \<Rightarrow> Fails
            | Some content \<Rightarrow> Returns content))"

definition JudgeDebate ::
  "Env \<Rightarrow> ChatGPTClient \<Rightarrow> string \<Rightarrow> DebateLogEntry list \<Rightarrow> string \<Rightarrow> string \<Rightarrow> DebateResult outcome" where
  "JudgeDebate e c topic debateLog supportingBot opposingBot =
     (case SendMessage e c topic debateLog supportingBot opposingBot of
        Panics \<Rightarrow> Panics
      | Fails \<Rightarrow> Fails
      | Returns response \<Rightarrow>
          (case parseJudgeResponse e response of
             Panics \<Rightarrow> Panics
           | Fails \<Rightarrow> Returns \<lparr>Winner = ''draw'', SupportingScore = 50, OpposingScore = 50,
                        Summary = SummaryUnparsed response, Reason = ''''\<rparr>
           | Returns result \<Rightarrow> Returns result))"

section \<open>generateDebateResult\<close>

definition HasPrefix :: "string \<Rightarrow> string \<Rightarrow> bool" where
  "HasPrefix s p = (take (length p) s = p)"

definition TrimPrefix :: "string \<Rightarrow> string \<Rightarrow> string" where
  "TrimPrefix s p = (if HasPrefix s p then drop (length p) s else s)"

definition getReasonDescription :: "Env \<Rightarrow> string \<Rightarrow> ReasonDescription" where
  "getReasonDescription e reason =
     (if reason = ''completed'' then ReasonCompleted
      else if reason = ''speech_timeout'' then ReasonSpeechTimeout (SpeechTimeout (config e))
      else if reason = ''inactivity_timeout'' then ReasonInactivity (InactivityTimeout (config e))
      else if reason = ''max_duration_timeout'' then ReasonMaxDuration (MaxDuration (config e))
      else if HasPrefix reason ''bot_disconnected_''
        then ReasonBotDisconnected (TrimPrefix reason ''bot_disconnected_'')
      else if HasPrefix reason ''heartbeat_timeout_''
        then ReasonHeartbeatTimeout (TrimPrefix reason ''heartbeat_timeout_'')
      else ReasonOther reason)"

text \<open>The placeholder for a side that was never assigned, the UTF-8 bytes of the
  source's literal.\<close>

definition notConnected :: string where
  "notConnected = [CHR 0xE6, CHR 0x9C, CHR 0xAA, CHR 0xE8, CHR 0xBF, CHR 0x9E,
                   CHR 0xE6, CHR 0x8E, CHR 0xA5]"

definition identifierOrPlaceholder :: "ConnectedBot option \<Rightarrow> string" where
  "identifierOrPlaceholder b =
     (case b of None \<Rightarrow> notConnected | Some cb \<Rightarrow> BotIdentifier (Bot cb))"

text \<open>Lines 680 to 795: the result computed locally when the judge is not used or
  has failed.\<close>

definition fallbackResult :: "Env \<Rightarrow> ActiveDebate \<Rightarrow> string \<Rightarrow> string \<Rightarrow> DebateResult" where
  "fallbackResult e activeDebate status reason =
     (let (supportingCount, opposingCount) = countSpeeches (DebateLog activeDebate) (0, 0);
          (supportingScore, opposingScore) = fallbackScores supportingCount opposingCount;
          winner = fallbackWinner supportingCount opposingCount supportingScore opposingScore;
          supportingID = identifierOrPlaceholder (SupportingBot activeDebate);
          opposingID = identifierOrPlaceholder (OpposingBot activeDebate);
          reasonDesc = getReasonDescription e reason;
          summary =
            (if status = ''timeout'' \<and> (supportingCount = 0 \<and> opposingCount = 0) then
               SummaryTimeoutNoSpeech (Topic (Debate activeDebate)) supportingID opposingID reasonDesc
             else if status = ''timeout'' \<and> (supportingCount = 0 \<or> opposingCount = 0) then
               SummaryTimeoutOneSide (Topic (Debate activeDebate)) supportingID supportingCount
                 opposingID opposingCount reasonDesc
             else
               SummaryScores (Topic (Debate activeDebate)) supportingID supportingCount
                 supportingScore opposingID opposingCount opposingScore winner)
      in \<lparr>Winner = winner, SupportingScore = supportingScore, OpposingScore = opposingScore,
           Summary = summary, Reason = reason\<rparr>)"

definition generateDebateResult ::
  "Env \<Rightarrow> ActiveDebate \<Rightarrow> string \<Rightarrow> string \<Rightarrow> DebateResult outcome" where
  "generateDebateResult e activeDebate status reason =
     (let (supportingCount, opposingCount) = countSpeeches (DebateLog activeDebate) (0, 0) in
      case (chatgptClient e, SupportingBot activeDebate, OpposingBot activeDebate) of
        (Some client, Some supportingBot, Some opposingBot) \<Rightarrow>
          (if supportingCount > 0 \<and> opposingCount > 0 then
             (case JudgeDebate e client (Topic (Debate activeDebate)) (DebateLog activeDebate)
                     (BotIdentifier (Bot supportingBot)) (BotIdentifier (Bot opposingBot)) of
                Panics \<Rightarrow> Panics
              | Returns result \<Rightarrow> Returns result
              | Fails \<Rightarrow> Returns (fallbackResult e activeDebate status reason))
           else Returns (fallbackResult e activeDebate status reason))
      | _ \<Rightarrow> Returns (fallbackResult e activeDebate status reason))"

section \<open>The store (database.go)\<close>

text \<open>\<open>INSERT INTO debates\<close>: the id is the primary key.\<close>

definition db_CreateDebate :: "Debate \<Rightarrow> Database \<Rightarrow> Database option" where
  "db_CreateDebate debate d =
     (if ID debate \<in> set (map ID (debates_table d)) then None
      else Some (d\<lparr>debates_table := debates_table d @ [debate]\<rparr>))"

text \<open>\<open>None\<close> is the error of \<open>QueryRow(...).Scan\<close> when no row has the id.\<close>

definition GetDebate :: "Database \<Rightarrow> string \<Rightarrow> Debate option" where
  "GetDebate d debateID = find (\<lambda>row. ID row = debateID) (debates_table d)"

definition UpdateDebateStatus :: "string \<Rightarrow> string \<Rightarrow> time \<Rightarrow> Database \<Rightarrow> Database" where
  "UpdateDebateStatus debateID status now d =
     d\<lparr>debates_table :=
         map (\<lambda>row. if ID row = debateID then row\<lparr>Status := status, UpdatedAt := now\<rparr> else row)
           (debates_table d)\<rparr>"

definition UpdateDebateRound :: "string \<Rightarrow> int \<Rightarrow> time \<Rightarrow> Database \<Rightarrow> Database" where
  "UpdateDebateRound debateID round now d =
     d\<lparr>debates_table :=
         map (\<lambda>row. if ID row = debateID then row\<lparr>CurrentRound := round, UpdatedAt := now\<rparr> else row)
           (debates_table d)\<rparr>"

text \<open>\<open>INSERT INTO bots\<close>: the primary key is (debate id, bot uuid).\<close>

definition AddBot :: "Bot \<Rightarrow> Database \<Rightarrow> Database option" where
  "AddBot newBot d =
     (if \<exists>row \<in> set (bots_table d). DebateID row = DebateID newBot \<and> BotUUID row = BotUUID newBot
      then None
      else Some (d\<lparr>bots_table := bots_table d @ [newBot]\<rparr>))"

definition UpdateBotSide :: "string \<Rightarrow> string \<Rightarrow> string \<Rightarrow> Database \<Rightarrow> Database" where
  "UpdateBotSide debateID botIdentifier side d =
     d\<lparr>bots_table :=
         map (\<lambda>row. if DebateID row = debateID \<and> BotIdentifier row = botIdentifier
                     then row\<lparr>Side := side\<rparr> else row)
           (bots_table d)\<rparr>"

definition AddDebateLog :: "DebateLogEntry \<Rightarrow> string \<Rightarrow> Database \<Rightarrow> Database" where
  "AddDebateLog entry debateID d =
     d\<lparr>debate_log_table := debate_log_table d @ [(debateID, entry)]\<rparr>"

text \<open>\<open>INSERT INTO debate_results\<close>: the debate id is the primary key, so a second
  insert for the same debate fails and leaves the table as it was. The table has no
  column for the reason.\<close>

definition SaveDebateResult :: "string \<Rightarrow> DebateResult \<Rightarrow> Database \<Rightarrow> Database option" where
  "SaveDebateResult debateID result d =
     (if debateID \<in> set (map fst (debate_results_table d)) then None
      else Some (d\<lparr>debate_results_table :=
                     debate_results_table d @ [(debateID, result\<lparr>Reason := ''''\<rparr>)]\<rparr>))"

text \<open>\<open>GetAvailableDebate\<close>: the waiting debates with fewer than two rows in
  \<open>bots\<close>, \<open>ORDER BY created_at ASC LIMIT 1\<close>. The comparison is the one of the
  stored texts. Among rows of equal text the earliest inserted is taken.\<close>

definition bot_count :: "Database \<Rightarrow> string \<Rightarrow> nat" where
  "bot_count d debateID = length (filter (\<lambda>row. DebateID row = debateID) (bots_table d))"

definition available :: "Database \<Rightarrow> Debate \<Rightarrow> bool" where
  "available d row = (Status row = ''waiting'' \<and> bot_count d (ID row) < 2)"

fun oldest :: "Debate \<Rightarrow> Debate list \<Rightarrow> Debate" where
  "oldest best [] = best"
| "oldest best (row # rows) =
     oldest (if CreatedAt row < CreatedAt best then row else best) rows"

definition GetAvailableDebate :: "Database \<Rightarrow> Debate option" where
  "GetAvailableDebate d =
     (case filter (available d) (debates_table d) of
        [] \<Rightarrow> None
      | row # rows \<Rightarrow> Some (oldest row rows))"

section \<open>The debate manager\<close>

definition newActiveDebate :: "Debate \<Rightarrow> ActiveDebate" where
  "newActiveDebate debate =
     \<lparr>Debate = debate, BotA = None, BotB = None, SupportingBot = None, OpposingBot = None,
      DebateLog = [], LastSpeaker = '''', WaitingTimer = None, TimeoutTimer = None,
      InactivityTimer = None, MaxDurationTimer = None, StartTime = 0, LastActivityTime = 0\<rparr>"

text \<open>A write through the pointer \<open>dm.debates[debateID]\<close>.\<close>

definition updateDebate ::
  "string \<Rightarrow> (ActiveDebate \<Rightarrow> ActiveDebate) \<Rightarrow> DebateManager \<Rightarrow> DebateManager" where
  "updateDebate debateID f dm =
     (case debates dm debateID of
        None \<Rightarrow> dm
      | Some activeDebate \<Rightarrow> dm\<lparr>debates := (debates dm)(debateID \<mapsto> f activeDebate)\<rparr>)"

text \<open>\<open>if t != nil { t.Stop() }\<close>.\<close>

definition Stop :: "Timer option \<Rightarrow> Timer option" where
  "Stop t = (case t of Some (Running deadline) \<Rightarrow> Some Stopped | _ \<Rightarrow> t)"

definition startTimeout :: "Env \<Rightarrow> time \<Rightarrow> string \<Rightarrow> string \<Rightarrow> DebateManager \<Rightarrow> DebateManager" where
  "startTimeout e now debateID speaker dm =
     updateDebate debateID
       (\<lambda>a. a\<lparr>TimeoutTimer := Some (Running (now + SpeechTimeout (config e)))\<rparr>) dm"

definition startInactivityTimer :: "Env \<Rightarrow> time \<Rightarrow> string \<Rightarrow> DebateManager \<Rightarrow> DebateManager" where
  "startInactivityTimer e now debateID dm =
     updateDebate debateID
       (\<lambda>a. a\<lparr>InactivityTimer := Some (Running (now + InactivityTimeout (config e)))\<rparr>) dm"

definition resetInactivityTimer :: "Env \<Rightarrow> time \<Rightarrow> string \<Rightarrow> DebateManager \<Rightarrow> DebateManager" where
  "resetInactivityTimer e now debateID dm =
     startInactivityTimer e now debateID
       (updateDebate debateID (\<lambda>a. a\<lparr>InactivityTimer := Stop (InactivityTimer a)\<rparr>) dm)"

definition startMaxDurationTimer :: "Env \<Rightarrow> time \<Rightarrow> string \<Rightarrow> DebateManager \<Rightarrow> DebateManager" where
  "startMaxDurationTimer e now debateID dm =
     updateDebate debateID
       (\<lambda>a. a\<lparr>MaxDurationTimer := Some (Running (now + MaxDuration (config e)))\<rparr>) dm"

definition startWaitingTimer :: "Env \<Rightarrow> time \<Rightarrow> string \<Rightarrow> DebateManager \<Rightarrow> DebateManager" where
  "startWaitingTimer e now debateID dm =
     updateDebate debateID
       (\<lambda>a. a\<lparr>WaitingTimer := Some (Running (now + WaitingTimeout (config e)))\<rparr>) dm"

text \<open>\<open>CreateDebate\<close>; \<open>uuid\<close> is the string of the fresh \<open>uuid.New()\<close>, \<open>now\<close> the
  instant of \<open>time.Now()\<close> and \<open>stamp\<close> the text the driver stores for it.\<close>

definition CreateDebate ::
  "Env \<Rightarrow> time \<Rightarrow> string \<Rightarrow> string \<Rightarrow> string \<Rightarrow> int \<Rightarrow> DebateManager \<Rightarrow>
   DebateManager \<times> Debate outcome" where
  "CreateDebate e now stamp uuid topic totalRounds dm =
     (let debate = \<lparr>ID = ''debate-'' @ uuid, Topic = topic, TotalRounds = totalRounds,
                     CurrentRound = 1, Status = ''waiting'', CreatedAt = stamp, UpdatedAt = now\<rparr>
      in case db_CreateDebate debate (db dm) of
           None \<Rightarrow> (dm, Fails)
         | Some d \<Rightarrow>
             (startWaitingTimer e now (ID debate)
                (dm\<lparr>db := d, debates := (debates dm)(ID debate \<mapsto> newActiveDebate debate)\<rparr>),
              Returns debate))"

subsection \<open>BotLogin\<close>

datatype login_result = Confirmed LoginConfirmed | Rejected LoginRejected | LoginPanics

text \<open>Lines 181 to 270, for the session found or loaded; \<open>dm\<close> already holds it
  under \<open>debateID\<close>. \<open>debateKey\<close> is the value of \<open>generateDebateKey()\<close>. The slice
  \<open>loginReq.BotUUID[:8]\<close> panics on a uuid of fewer than eight bytes. The start of
  the debate, spawned with \<open>go\<close> when the second slot fills, is the separate
  transition \<open>startDebate\<close>.\<close>

definition joinDebate ::
  "time \<Rightarrow> string \<Rightarrow> LoginRequest \<Rightarrow> nat \<Rightarrow> string \<Rightarrow> ActiveDebate \<Rightarrow> DebateManager \<Rightarrow>
   DebateManager \<times> login_result" where
  "joinDebate now debateKey loginReq conn debateID activeDebate dm =
     (if BotA activeDebate \<noteq> None \<and> BotB activeDebate \<noteq> None then
        (dm, Rejected \<lparr>rej_Status = ''rejected'', rej_Reason = ''debate_full'',
               rej_Message = ''Debate already has two bots'', rej_DebateID = debateID,
               rej_RetryAfter = 0\<rparr>)
      else if length (req_BotUUID loginReq) < 8 then (dm, LoginPanics)
      else
        (let botIdentifier = req_BotName loginReq @ ''-'' @ take 8 (req_BotUUID loginReq);
             newBot = \<lparr>BotName = req_BotName loginReq, BotUUID = req_BotUUID loginReq,
                    BotIdentifier = botIdentifier, DebateID = debateID, DebateKey = debateKey,
                    Side = '''', ConnectedAt = now\<rparr>
         in case AddBot newBot (db dm) of
              None \<Rightarrow>
                (dm, Rejected \<lparr>rej_Status = ''rejected'', rej_Reason = ''internal_error'',
                       rej_Message = ''Failed to register bot'', rej_DebateID = debateID,
                       rej_RetryAfter = 0\<rparr>)
            | Some d \<Rightarrow>
                (let connectedBot = \<lparr>Bot = newBot, Conn = conn\<rparr>;
                     activeDebate' =
                       (if BotA activeDebate = None
                        then activeDebate\<lparr>BotA := Some connectedBot\<rparr>
                        else activeDebate\<lparr>BotB := Some connectedBot\<rparr>);
                     others = filter (\<lambda>i. i \<noteq> botIdentifier);
                     allJoinedBots =
                       (case BotA activeDebate' of None \<Rightarrow> []
                        | Some a \<Rightarrow> [BotIdentifier (Bot a)]) @
                       (case BotB activeDebate' of None \<Rightarrow> []
                        | Some b \<Rightarrow> [BotIdentifier (Bot b)]);
                     joinedBots = others allJoinedBots;
                     confirmed =
                       \<lparr>lc_Status = ''confirmed'', lc_Message = ''Wait for other bot'',
                        lc_DebateID = debateID, lc_DebateKey = debateKey,
                        lc_BotIdentifier = botIdentifier,
                        lc_Topic = Topic (Debate activeDebate'), lc_JoinedBots = joinedBots\<rparr>;
                     waiting =
                       \<lparr>bm_DebateID = debateID,
                        bm_Message = debate_waiting
                          \<lparr>dw_DebateID = debateID, dw_Topic = Topic (Debate activeDebate'),
                           dw_TotalRounds = TotalRounds (Debate activeDebate'),
                           dw_Status = ''waiting'', dw_JoinedBots = allJoinedBots\<rparr>\<rparr>
                 in (dm\<lparr>db := d, debates := (debates dm)(debateID \<mapsto> activeDebate'),
                         broadcast := broadcast dm @ [waiting]\<rparr>,
                     Confirmed confirmed))))"

text \<open>Lines 150 to 179: the session of the live registry, else the one loaded from
  the store, which must still be waiting.\<close>

definition loginToDebate ::
  "time \<Rightarrow> string \<Rightarrow> LoginRequest \<Rightarrow> nat \<Rightarrow> string \<Rightarrow> DebateManager \<Rightarrow>
   DebateManager \<times> login_result" where
  "loginToDebate now debateKey loginReq conn debateID dm =
     (case debates dm debateID of
        Some activeDebate \<Rightarrow> joinDebate now debateKey loginReq conn debateID activeDebate dm
      | None \<Rightarrow>
          (case GetDebate (db dm) debateID of
             None \<Rightarrow>
               (dm, Rejected \<lparr>rej_Status = ''rejected'', rej_Reason = ''debate_not_found'',
                      rej_Message = ''Debate not found'', rej_DebateID = debateID,
                      rej_RetryAfter = 0\<rparr>)
           | Some debate \<Rightarrow>
               (if Status debate \<noteq> ''waiting'' then
                  (dm, Rejected \<lparr>rej_Status = ''rejected'', rej_Reason = ''debate_not_ready'',
                         rej_Message = ''Debate not ready yet, try later'',
                         rej_DebateID = debateID, rej_RetryAfter = 5\<rparr>)
                else
                  joinDebate now debateKey loginReq conn debateID (newActiveDebate debate)
                    (dm\<lparr>debates := (debates dm)(debateID \<mapsto> newActiveDebate debate)\<rparr>))))"

definition BotLogin ::
  "time \<Rightarrow> string \<Rightarrow> LoginRequest \<Rightarrow> nat \<Rightarrow> DebateManager \<Rightarrow> DebateManager \<times> login_result" where
  "BotLogin now debateKey loginReq conn dm =
     (if req_DebateID loginReq = '''' then
        (case GetAvailableDebate (db dm) of
           None \<Rightarrow>
             (dm, Rejected \<lparr>rej_Status = ''rejected'', rej_Reason = ''no_available_debate'',
                    rej_Message =
                      ''No available debates found. Please create a debate first or specify a debate_id.'',
                    rej_DebateID = '''', rej_RetryAfter = 0\<rparr>)
         | Some availableDebate \<Rightarrow>
             loginToDebate now debateKey loginReq conn (ID availableDebate) dm)
      else loginToDebate now debateKey loginReq conn (req_DebateID loginReq) dm)"

subsection \<open>startDebate\<close>

text \<open>\<open>coin\<close> is the value of \<open>randomBool()\<close>. The side is written through the
  pointer shared with the slot, so the slot sees it too. Reading the identifier of
  a side that is nil panics.\<close>

definition startDebate ::
  "Env \<Rightarrow> time \<Rightarrow> bool \<Rightarrow> string \<Rightarrow> DebateManager \<Rightarrow> DebateManager \<times> unit outcome" where
  "startDebate e now coin debateID dm =
     (case debates dm debateID of
        None \<Rightarrow> (dm, Returns ())
      | Some activeDebate \<Rightarrow>
          (let dm1 = updateDebate debateID
                       (\<lambda>a. a\<lparr>WaitingTimer := None,
                              SupportingBot := (if coin then BotA a else BotB a),
                              OpposingBot := (if coin then BotB a else BotA a)\<rparr>) dm
           in
           case (BotA activeDebate, BotB activeDebate) of
             (Some botA, Some botB) \<Rightarrow>
               (let supportingBot =
                      (if coin then botA else botB)\<lparr>Bot := (Bot (if coin then botA else botB))\<lparr>Side := ''supporting''\<rparr>\<rparr>;
                    opposingBot =
                      (if coin then botB else botA)\<lparr>Bot := (Bot (if coin then botB else botA))\<lparr>Side := ''opposing''\<rparr>\<rparr>;
                    supportingID = BotIdentifier (Bot supportingBot);
                    opposingID = BotIdentifier (Bot opposingBot);
                    d1 = UpdateBotSide debateID opposingID ''opposing''
                           (UpdateBotSide debateID supportingID ''supporting'' (db dm1));
                    d2 = UpdateDebateStatus debateID ''active'' now d1;
                    start = (\<lambda>yourSide yourIdentifier.
                      debate_start
                        \<lparr>ds_DebateID = debateID, ds_Topic = Topic (Debate activeDebate),
                         ds_SupportingSide = supportingID, ds_OpposingSide = opposingID,
                         ds_TotalRounds = TotalRounds (Debate activeDebate), ds_CurrentRound = 1,
                         ds_YourSide = yourSide, ds_YourIdentifier = yourIdentifier,
                         ds_NextSpeaker = supportingID, ds_TimeoutSeconds = 120,
                         ds_MinContentLength = MinContentLength (config e),
                         ds_MaxContentLength = MaxContentLength (config e)\<rparr>);
                    startMsgA = start ''supporting'' supportingID;
                    startMsgB = start ''opposing'' opposingID;
                    dm2 = updateDebate debateID
                            (\<lambda>a. a\<lparr>BotA := Some (if coin then supportingBot else opposingBot),
                                   BotB := Some (if coin then opposingBot else supportingBot),
                                   SupportingBot := Some supportingBot,
                                   OpposingBot := Some opposingBot,
                                   Debate := (Debate a)\<lparr>Status := ''active''\<rparr>,
                                   StartTime := now, LastActivityTime := now,
                                   LastSpeaker := ''''\<rparr>)
                            (dm1\<lparr>db := d2,
                                  sent := sent dm1 @ [(Conn supportingBot, startMsgA),
                                                      (Conn opposingBot, startMsgB)],
                                  broadcast := broadcast dm1 @
                                    [\<lparr>bm_DebateID = debateID, bm_Message = startMsgA\<rparr>]\<rparr>)
                in (startMaxDurationTimer e now debateID
                      (startInactivityTimer e now debateID
                         (startTimeout e now debateID supportingID dm2)),
                    Returns ()))
           | (Some botA, None) \<Rightarrow>
               (if coin
                then (dm1\<lparr>db := UpdateBotSide debateID (BotIdentifier (Bot botA)) ''supporting''
                                   (db dm1)\<rparr>, Panics)
                else (dm1, Panics))
           | (None, Some botB) \<Rightarrow>
               (if coin then (dm1, Panics)
                else (dm1\<lparr>db := UpdateBotSide debateID (BotIdentifier (Bot botB)) ''supporting''
                                   (db dm1)\<rparr>, Panics))
           | (None, None) \<Rightarrow> (dm1, Panics)))"

subsection \<open>endDebate\<close>

text \<open>Lines 567 to 636. The error of \<open>SaveDebateResult\<close> is dropped by the caller.\<close>

definition endDebate ::
  "Env \<Rightarrow> time \<Rightarrow> string \<Rightarrow> string \<Rightarrow> string \<Rightarrow> DebateManager \<Rightarrow> DebateManager \<times> unit outcome" where
  "endDebate e now debateID status reason dm =
     (case debates dm debateID of
        None \<Rightarrow> (dm, Returns ())
      | Some activeDebate0 \<Rightarrow>
          (let activeDebate =
                 activeDebate0\<lparr>WaitingTimer := Stop (WaitingTimer activeDebate0),
                                TimeoutTimer := Stop (TimeoutTimer activeDebate0),
                                InactivityTimer := Stop (InactivityTimer activeDebate0),
                                MaxDurationTimer := Stop (MaxDurationTimer activeDebate0),
                                Debate := (Debate activeDebate0)\<lparr>Status := status\<rparr>\<rparr>;
               dm1 = dm\<lparr>debates := (debates dm)(debateID \<mapsto> activeDebate),
                         db := UpdateDebateStatus debateID status now (db dm)\<rparr>
           in case generateDebateResult e activeDebate status reason of
                Panics \<Rightarrow> (dm1, Panics)
              | Fails \<Rightarrow> (dm1, Panics)
              | Returns result \<Rightarrow>
                  (let d2 = (case SaveDebateResult debateID result (db dm1) of
                               None \<Rightarrow> db dm1 | Some d \<Rightarrow> d);
                       endMsg = debate_end
                         \<lparr>de_DebateID = debateID, de_Topic = Topic (Debate activeDebate),
                          de_SupportingSide = identifierOrPlaceholder (SupportingBot activeDebate),
                          de_OpposingSide = identifierOrPlaceholder (OpposingBot activeDebate),
                          de_TotalRounds = TotalRounds (Debate activeDebate),
                          de_Status = status, de_DebateLog = DebateLog activeDebate,
                          de_DebateResult = result\<rparr>;
                       toSupporting = (case SupportingBot activeDebate of None \<Rightarrow> []
                                       | Some b \<Rightarrow> [(Conn b, endMsg)]);
                       toOpposing = (case OpposingBot activeDebate of None \<Rightarrow> []
                                     | Some b \<Rightarrow> [(Conn b, endMsg)])
                   in (dm1\<lparr>db := d2, sent := sent dm1 @ toSupporting @ toOpposing,
                            broadcast := broadcast dm1 @
                              [\<lparr>bm_DebateID = debateID, bm_Message = endMsg\<rparr>]\<rparr>,
                       Returns ()))))"

subsection \<open>HandleSpeech\<close>

definition getNextSpeaker :: "ActiveDebate \<Rightarrow> string outcome" where
  "getNextSpeaker activeDebate =
     (case SupportingBot activeDebate of
        None \<Rightarrow> Panics
      | Some supportingBot \<Rightarrow>
          (if LastSpeaker activeDebate = '''' then Returns (BotIdentifier (Bot supportingBot))
           else if LastSpeaker activeDebate = BotIdentifier (Bot supportingBot) then
             (case OpposingBot activeDebate of
                None \<Rightarrow> Panics
              | Some opposingBot \<Rightarrow> Returns (BotIdentifier (Bot opposingBot)))
           else Returns (BotIdentifier (Bot supportingBot))))"

definition sendDebateUpdate ::
  "Env \<Rightarrow> ActiveDebate \<Rightarrow> string \<Rightarrow> DebateManager \<Rightarrow> DebateManager \<times> unit outcome" where
  "sendDebateUpdate e activeDebate nextSpeaker dm =
     (case (SupportingBot activeDebate, OpposingBot activeDebate) of
        (Some supportingBot, Some opposingBot) \<Rightarrow>
          (let update = (\<lambda>yourSide yourIdentifier.
                 debate_update
                   \<lparr>du_DebateID = ID (Debate activeDebate), du_Topic = Topic (Debate activeDebate),
                    du_SupportingSide = BotIdentifier (Bot supportingBot),
                    du_OpposingSide = BotIdentifier (Bot opposingBot),
                    du_TotalRounds = TotalRounds (Debate activeDebate),
                    du_CurrentRound = CurrentRound (Debate activeDebate),
                    du_YourSide = yourSide, du_YourIdentifier = yourIdentifier,
                    du_NextSpeaker = nextSpeaker, du_TimeoutSeconds = 120,
                    du_MinContentLength = MinContentLength (config e),
                    du_MaxContentLength = MaxContentLength (config e),
                    du_DebateLog = DebateLog activeDebate\<rparr>);
               updateMsgA = update ''supporting'' (BotIdentifier (Bot supportingBot));
               updateMsgB = update ''opposing'' (BotIdentifier (Bot opposingBot))
           in (dm\<lparr>sent := sent dm @ [(Conn supportingBot, updateMsgA),
                                      (Conn opposingBot, updateMsgB)],
                   broadcast := broadcast dm @
                     [\<lparr>bm_DebateID = ID (Debate activeDebate), bm_Message = updateMsgA\<rparr>]\<rparr>,
               Returns ()))
      | _ \<Rightarrow> (dm, Panics))"

text \<open>Lines 380 to 386: the side whose identifier the speech names.\<close>

definition findSpeakerBot :: "ActiveDebate \<Rightarrow> string \<Rightarrow> ConnectedBot option" where
  "findSpeakerBot activeDebate speaker =
     (case SupportingBot activeDebate of
        Some supportingBot \<Rightarrow>
          (if BotIdentifier (Bot supportingBot) = speaker then Some supportingBot
           else (case OpposingBot activeDebate of
                   Some opposingBot \<Rightarrow>
                     (if BotIdentifier (Bot opposingBot) = speaker then Some opposingBot else None)
                 | None \<Rightarrow> None))
      | None \<Rightarrow>
          (case OpposingBot activeDebate of
             Some opposingBot \<Rightarrow>
               (if BotIdentifier (Bot opposingBot) = speaker then Some opposingBot else None)
           | None \<Rightarrow> None))"

text \<open>\<open>%d\<close> of \<open>fmt.Sprintf\<close>.\<close>

fun showNat :: "nat \<Rightarrow> string" where
  "showNat n =
     (if n < 10 then [char_of (48 + n)]
      else showNat (n div 10) @ [char_of (48 + n mod 10)])"

definition showInt :: "int \<Rightarrow> string" where
  "showInt i = (if i < 0 then CHR ''-'' # showNat (nat (- i)) else showNat (nat i))"

definition speechError :: "string \<Rightarrow> string \<Rightarrow> string \<Rightarrow> bool \<Rightarrow> ErrorMessage" where
  "speechError code message debateID recoverable =
     \<lparr>ErrorCode = code, err_Message = message, err_DebateID = debateID,
      Recoverable = recoverable\<rparr>"

text \<open>Lines 453 to 479: after the entry is stored. \<open>dm\<close> holds the session with the
  entry appended.\<close>

definition advanceTurn ::
  "Env \<Rightarrow> time \<Rightarrow> DebateSpeech \<Rightarrow> DebateManager \<Rightarrow>
   DebateManager \<times> ErrorMessage option outcome" where
  "advanceTurn e now speech dm =
     (let debateID = sp_DebateID speech;
          announce = (\<lambda>nextSpeaker dm'.
            (case debates dm' debateID of
               None \<Rightarrow> (dm', Panics)
             | Some a \<Rightarrow>
                 (case sendDebateUpdate e a nextSpeaker dm' of
                    (dm'', Returns u) \<Rightarrow>
                      (startTimeout e now debateID nextSpeaker dm'', Returns None)
                  | (dm'', _) \<Rightarrow> (dm'', Panics))))
      in case debates dm debateID of
           None \<Rightarrow> (dm, Panics)
         | Some activeDebate \<Rightarrow>
             (case SupportingBot activeDebate of
                None \<Rightarrow> (dm, Panics)
              | Some supportingBot \<Rightarrow>
                  (if sp_Speaker speech = BotIdentifier (Bot supportingBot) then
                     (case OpposingBot activeDebate of
                        None \<Rightarrow> (dm, Panics)
                      | Some opposingBot \<Rightarrow> announce (BotIdentifier (Bot opposingBot)) dm)
                   else
                     (let round = CurrentRound (Debate activeDebate) + 1;
                          dm1 = (updateDebate debateID
                                   (\<lambda>a. a\<lparr>Debate := (Debate a)\<lparr>CurrentRound := round\<rparr>\<rparr>) dm)
                                 \<lparr>db := UpdateDebateRound debateID round now (db dm)\<rparr>
                      in if round > TotalRounds (Debate activeDebate) then
                           (case endDebate e now debateID ''completed'' ''completed'' dm1 of
                              (dm2, Returns u) \<Rightarrow> (dm2, Returns None)
                            | (dm2, _) \<Rightarrow> (dm2, Panics))
                         else announce (BotIdentifier (Bot supportingBot)) dm1))))"

definition HandleSpeech ::
  "Env \<Rightarrow> time \<Rightarrow> DebateSpeech \<Rightarrow> DebateManager \<Rightarrow>
   DebateManager \<times> ErrorMessage option outcome" where
  "HandleSpeech e now speech dm =
     (let debateID = sp_DebateID speech in
      case debates dm debateID of
        None \<Rightarrow>
          (dm, Returns (Some (speechError ''DEBATE_NOT_FOUND'' ''Debate not found'' debateID False)))
      | Some activeDebate \<Rightarrow>
          (case findSpeakerBot activeDebate (sp_Speaker speech) of
             None \<Rightarrow>
               (dm, Returns (Some (speechError ''INVALID_DEBATE_KEY'' ''Invalid debate key''
                                      debateID False)))
           | Some speakerBot \<Rightarrow>
               (if DebateKey (Bot speakerBot) \<noteq> sp_DebateKey speech then
                  (dm, Returns (Some (speechError ''INVALID_DEBATE_KEY'' ''Invalid debate key''
                                         debateID False)))
                else
                  (case getNextSpeaker activeDebate of
                     Returns expectedSpeaker \<Rightarrow>
                       (if sp_Speaker speech \<noteq> expectedSpeaker then
                          (dm, Returns (Some (speechError ''NOT_YOUR_TURN''
                                                 ''It's not your turn to speak'' debateID True)))
                        else
                          (let dm1 = resetInactivityTimer e now debateID
                                       (updateDebate debateID
                                          (\<lambda>a. a\<lparr>TimeoutTimer := Stop (TimeoutTimer a),
                                                 LastActivityTime := now\<rparr>) dm);
                               contentLen =
                                 int (length (TrimSpace e (Content (sp_Message speech))))
                           in if contentLen < MinContentLength (config e) then
                                (dm1, Returns (Some (speechError ''CONTENT_TOO_SHORT''
                                   (''Speech content too short (minimum '' @
                                     showInt (MinContentLength (config e)) @ '' characters)'')
                                   debateID True)))
                              else if contentLen > MaxContentLength (config e) then
                                (dm1, Returns (Some (speechError ''CONTENT_TOO_LONG''
                                   (''Speech content too long (maximum '' @
                                     showInt (MaxContentLength (config e)) @ '' characters)'')
                                   debateID True)))
                              else
                                (let logEntry =
                                       \<lparr>le_Round = CurrentRound (Debate activeDebate),
                                        le_Speaker = sp_Speaker speech,
                                        le_Side = Side (Bot speakerBot), le_Timestamp = now,
                                        le_Message = sp_Message speech\<rparr>;
                                     dm2 = (updateDebate debateID
                                              (\<lambda>a. a\<lparr>DebateLog := DebateLog a @ [logEntry],
                                                     LastSpeaker := sp_Speaker speech\<rparr>) dm1)
                                            \<lparr>db := AddDebateLog logEntry debateID (db dm1)\<rparr>
                                 in advanceTurn e now speech dm2)))
                   | _ \<Rightarrow> (dm, Panics)))))"

subsection \<open>Timer callbacks and disconnects\<close>

text \<open>The runtime runs the callback of a timer that is still running; the three
  timers of an active session call \<open>endDebate\<close> without looking at the status.\<close>

definition fireTimeoutTimer ::
  "Env \<Rightarrow> time \<Rightarrow> string \<Rightarrow> DebateManager \<Rightarrow> DebateManager \<times> unit outcome" where
  "fireTimeoutTimer e now debateID dm =
     (case debates dm debateID of
        None \<Rightarrow> (dm, Returns ())
      | Some activeDebate \<Rightarrow>
          (case TimeoutTimer activeDebate of
             Some (Running deadline) \<Rightarrow>
               endDebate e now debateID ''timeout'' ''speech_timeout''
                 (updateDebate debateID (\<lambda>a. a\<lparr>TimeoutTimer := Some Fired\<rparr>) dm)
           | _ \<Rightarrow> (dm, Returns ())))"

definition fireInactivityTimer ::
  "Env \<Rightarrow> time \<Rightarrow> string \<Rightarrow> DebateManager \<Rightarrow> DebateManager \<times> unit outcome" where
  "fireInactivityTimer e now debateID dm =
     (case debates dm debateID of
        None \<Rightarrow> (dm, Returns ())
      | Some activeDebate \<Rightarrow>
          (case InactivityTimer activeDebate of
             Some (Running deadline) \<Rightarrow>
               endDebate e now debateID ''timeout'' ''inactivity_timeout''
                 (updateDebate debateID (\<lambda>a. a\<lparr>InactivityTimer := Some Fired\<rparr>) dm)
           | _ \<Rightarrow> (dm, Returns ())))"

definition fireMaxDurationTimer ::
  "Env \<Rightarrow> time \<Rightarrow> string \<Rightarrow> DebateManager \<Rightarrow> DebateManager \<times> unit outcome" where
  "fireMaxDurationTimer e now debateID dm =
     (case debates dm debateID of
        None \<Rightarrow> (dm, Returns ())
      | Some activeDebate \<Rightarrow>
          (case MaxDurationTimer activeDebate of
             Some (Running deadline) \<Rightarrow>
               endDebate e now debateID ''timeout'' ''max_duration_timeout''
                 (updateDebate debateID (\<lambda>a. a\<lparr>MaxDurationTimer := Some Fired\<rparr>) dm)
           | _ \<Rightarrow> (dm, Returns ())))"


definition HandleBotDisconnect ::
  "Env \<Rightarrow> time \<Rightarrow> string \<Rightarrow> string \<Rightarrow> string \<Rightarrow> DebateManager \<Rightarrow>
   DebateManager \<times> unit outcome" where
  "HandleBotDisconnect e now debateID botIdentifier reason dm =
     (case debates dm debateID of
        None \<Rightarrow> (dm, Returns ())
      | Some activeDebate \<Rightarrow>
          (if Status (Debate activeDebate) = ''active'' then
             endDebate e now debateID ''timeout'' (reason @ ''_'' @ botIdentifier) dm
           else (dm, Returns ())))"

text \<open>The two utterance counts of a session, as \<open>generateDebateResult\<close> computes
  them.\<close>

definition supportingCount :: "ActiveDebate \<Rightarrow> int" where
  "supportingCount activeDebate = fst (countSpeeches (DebateLog activeDebate) (0, 0))"

definition opposingCount :: "ActiveDebate \<Rightarrow> int" where
  "opposingCount activeDebate = snd (countSpeeches (DebateLog activeDebate) (0, 0))"

section \<open>A concrete run\<close>

text \<open>An environment for the examples: the length bounds are set to 5 and 20 in
  the configuration file, the other values are the defaults of \<open>LoadConfig\<close>; no
  judge is configured.\<close>

text \<open>
  \<open>strings.TrimSpace\<close> on the bytes of a Go string. White space is what
  \<open>unicode.IsSpace\<close> accepts: tab, line feed, vertical tab, form feed, carriage
  return, space, U+0085, U+00A0, U+1680, U+2000 to U+200A, U+2028, U+2029, U+202F,
  U+205F and U+3000, each in its UTF-8 encoding. A byte that is not the start of
  one of these encodings (an ill-formed sequence decodes to U+FFFD) ends the
  trimming at the front; at the back the last rune is found by stepping over
  continuation bytes, which for these encodings is a match of the reversed bytes.
\<close>

definition spaceRunes :: "string list" where
  "spaceRunes =
     [[CHR 0x09], [CHR 0x0A], [CHR 0x0B], [CHR 0x0C], [CHR 0x0D], [CHR 0x20],
      [CHR 0xC2, CHR 0x85], [CHR 0xC2, CHR 0xA0],
      [CHR 0xE1, CHR 0x9A, CHR 0x80],
      [CHR 0xE2, CHR 0x80, CHR 0x80], [CHR 0xE2, CHR 0x80, CHR 0x81],
      [CHR 0xE2, CHR 0x80, CHR 0x82], [CHR 0xE2, CHR 0x80, CHR 0x83],
      [CHR 0xE2, CHR 0x80, CHR 0x84], [CHR 0xE2, CHR 0x80, CHR 0x85],
      [CHR 0xE2, CHR 0x80, CHR 0x86], [CHR 0xE2, CHR 0x80, CHR 0x87],
      [CHR 0xE2, CHR 0x80, CHR 0x88], [CHR 0xE2, CHR 0x80, CHR 0x89],
      [CHR 0xE2, CHR 0x80, CHR 0x8A],
      [CHR 0xE2, CHR 0x80, CHR 0xA8], [CHR 0xE2, CHR 0x80, CHR 0xA9],
      [CHR 0xE2, CHR 0x80, CHR 0xAF],
      [CHR 0xE2, CHR 0x81, CHR 0x9F],
      [CHR 0xE3, CHR 0x80, CHR 0x80]]"

text \<open>The pattern of \<open>ps\<close> that \<open>s\<close> starts with, if any.\<close>

definition leading :: "string list \<Rightarrow> string \<Rightarrow> string option" where
  "leading ps s = find (\<lambda>p. p \<noteq> [] \<and> take (length p) s = p) ps"

function dropLeading :: "string list \<Rightarrow> string \<Rightarrow> string" where
  "dropLeading ps s =
     (case leading ps s of
        None \<Rightarrow> s
      | Some p \<Rightarrow> dropLeading ps (drop (length p) s))"
  by pat_completeness auto
termination
proof (relation "measure (\<lambda>(ps, s). length s)")
  show "wf (measure (\<lambda>(ps, s). length s))" by simp
next
  fix ps :: "string list" and s p :: string
  assume "leading ps s = Some p"
  then have "p \<noteq> []" and "take (length p) s = p"
    by (auto simp: leading_def find_Some_iff)
  then have "0 < length p" and "length (take (length p) s) = length p"
    by simp_all
  then have "0 < length p" and "length p \<le> length s"
    by simp_all
  then have "length s - length p < length s"
    by arith
  then show "((ps, drop (length p) s), (ps, s)) \<in> measure (\<lambda>(ps, s). length s)"
    by simp
qed

definition trimSpace :: "string \<Rightarrow> string" where
  "trimSpace s = rev (dropLeading (map rev spaceRunes) (rev (dropLeading spaceRunes s)))"

definition exampleConfig :: Config where
  "exampleConfig =
     \<lparr>SpeechTimeout = 120, InactivityTimeout = 1800, MaxDuration = 3600,
      WaitingTimeout = 1800, MinContentLength = 5, MaxContentLength = 20\<rparr>"

definition exampleEnv :: Env where
  "exampleEnv =
     \<lparr>config = exampleConfig, chatgptClient = None, completion = (\<lambda>t l s p. None),
      json_Unmarshal = (\<lambda>s. None), TrimSpace = trimSpace\<rparr>"

text \<open>The same environment with a judge whose reply holds no JSON object.\<close>

definition judgeEnv :: Env where
  "judgeEnv =
     exampleEnv\<lparr>chatgptClient := Some \<lparr>APIKey = ''sk-test''\<rparr>,
                 completion := (\<lambda>t l s p. Some ''I cannot decide'')\<rparr>"

text \<open>A judge that cannot be reached, and one whose reply holds the empty JSON
  object, which \<open>json.Unmarshal\<close> decodes to the zero value of the struct.\<close>

definition unreachableJudgeEnv :: Env where
  "unreachableJudgeEnv = exampleEnv\<lparr>chatgptClient := Some \<lparr>APIKey = ''sk-test''\<rparr>\<rparr>"

definition decodingEnv :: Env where
  "decodingEnv =
     exampleEnv\<lparr>chatgptClient := Some \<lparr>APIKey = ''sk-test''\<rparr>,
                 completion := (\<lambda>t l s p. Some ''verdict: {}''),
                 json_Unmarshal := (\<lambda>s. if s = ''{}''
                    then Some \<lparr>jd_Winner = '''', jd_SupportingScore = 0,
                                jd_OpposingScore = 0, jd_Summary = ''''\<rparr>
                    else None)\<rparr>"

text \<open>A judge whose reply has braces around a text that does not decode.\<close>

definition garbledEnv :: Env where
  "garbledEnv = decodingEnv\<lparr>completion := (\<lambda>t l s p. Some ''result {oops}'')\<rparr>"

definition emptyManager :: DebateManager where
  "emptyManager =
     \<lparr>debates = Map.empty,
      db = \<lparr>debates_table = [], bots_table = [], debate_log_table = [],
            debate_results_table = []\<rparr>,
      broadcast = [], sent = []\<rparr>"

definition speechOf :: "string \<Rightarrow> string \<Rightarrow> string \<Rightarrow> DebateSpeech" where
  "speechOf speaker debateKey content =
     \<lparr>sp_DebateID = ''debate-d1'', sp_DebateKey = debateKey, sp_Speaker = speaker,
      sp_Message = \<lparr>Format = ''markdown'', Content = content\<rparr>\<rparr>"

text \<open>One debate of a single round is created at time 0; alpha and beta join it
  without naming it; the coin makes alpha the supporting side.\<close>

definition created :: DebateManager where
  "created =
     fst (CreateDebate exampleEnv 0 ''1970-01-01 00:00:00+00:00'' ''d1'' ''T'' 1 emptyManager)"


definition oneJoined :: DebateManager where
  "oneJoined =
     fst (BotLogin 1 ''key-a''
            \<lparr>req_BotName = ''alpha'', req_BotUUID = ''uuid0001'', req_DebateID = ''''\<rparr> 10 created)"

definition twoJoined :: DebateManager where
  "twoJoined =
     fst (BotLogin 2 ''key-b''
            \<lparr>req_BotName = ''beta'', req_BotUUID = ''uuid0002'', req_DebateID = ''''\<rparr> 11 oneJoined)"

definition started :: DebateManager where
  "started = fst (startDebate exampleEnv 3 True ''debate-d1'' twoJoined)"

text \<open>Alpha speaks, beta answers: the single round is over and the debate
  completed.\<close>

definition afterAlpha :: DebateManager where
  "afterAlpha =
     fst (HandleSpeech exampleEnv 4 (speechOf ''alpha-uuid0001'' ''key-a'' ''hello world'') started)"

definition completed :: DebateManager where
  "completed =
     fst (HandleSpeech exampleEnv 5 (speechOf ''beta-uuid0002'' ''key-b'' ''hello again'') afterAlpha)"

text \<open>Both connections are still open. Alpha sends one more speech, and beta
  another.\<close>

definition lateAlpha :: DebateManager where
  "lateAlpha =
     fst (HandleSpeech exampleEnv 6 (speechOf ''alpha-uuid0001'' ''key-a'' ''one more thing'') completed)"

definition lateBeta :: DebateManager where
  "lateBeta =
     fst (HandleSpeech exampleEnv 7 (speechOf ''beta-uuid0002'' ''key-b'' ''and another'') lateAlpha)"



text \<open>The messages of type \<open>debate_end\<close> on a channel or a connection log.\<close>

fun isDebateEnd :: "Message \<Rightarrow> bool" where
  "isDebateEnd (debate_end m) = True"
| "isDebateEnd m = False"

definition theDebate :: "DebateManager \<Rightarrow> ActiveDebate option" where
  "theDebate dm = debates dm ''debate-d1''"

text \<open>After alpha's late speech the speech timer runs again; it fires at its
  deadline.\<close>

definition timedOutAfterCompletion :: DebateManager where
  "timedOutAfterCompletion = fst (fireTimeoutTimer exampleEnv 126 ''debate-d1'' lateAlpha)"

text \<open>In the started debate alpha, whose turn it is, sends a speech of two
  characters at time 50.\<close>

definition afterShortSpeech :: DebateManager where
  "afterShortSpeech =
     fst (HandleSpeech exampleEnv 50 (speechOf ''alpha-uuid0001'' ''key-a'' ''hi'') started)"

definition debateEnds :: "DebateManager \<Rightarrow> nat" where
  "debateEnds dm = length (filter (\<lambda>m. isDebateEnd (bm_Message m)) (broadcast dm))"

definition debateEndsSent :: "DebateManager \<Rightarrow> nat" where
  "debateEndsSent dm = length (filter (\<lambda>m. isDebateEnd (snd m)) (sent dm))"

section \<open>The fallback scorer\<close>

lemma countSpeeches_filter:
  "countSpeeches entries (s, p) =
     (s + int (length (filter (\<lambda>entry. le_Side entry = ''supporting'') entries)),
      p + int (length (filter (\<lambda>entry. le_Side entry \<noteq> ''supporting'') entries)))"
  by (induction entries arbitrary: s p) simp_all

lemma supportingCount_filter:
  "supportingCount a = int (length (filter (\<lambda>entry. le_Side entry = ''supporting'') (DebateLog a)))"
  by (simp add: supportingCount_def countSpeeches_filter)

lemma opposingCount_filter:
  "opposingCount a = int (length (filter (\<lambda>entry. le_Side entry \<noteq> ''supporting'') (DebateLog a)))"
  by (simp add: opposingCount_def countSpeeches_filter)

lemma countSpeeches_counts:
  "countSpeeches (DebateLog a) (0, 0) = (supportingCount a, opposingCount a)"
  by (simp add: supportingCount_def opposingCount_def)








section \<open>Rejections of HandleSpeech that leave the manager untouched\<close>

lemma findSpeakerBot_unassigned:
  "SupportingBot a = None \<Longrightarrow> OpposingBot a = None \<Longrightarrow> findSpeakerBot a speaker = None"
  by (simp add: findSpeakerBot_def)

text \<open>
  C10. A speech for a session of the live registry whose supporting and opposing
  sides are both still unset is answered with the error \<open>INVALID_DEBATE_KEY\<close>,
  not recoverable, and the manager (registry, store, channels) is returned
  unchanged.
\<close>

theorem speech_before_sides_assigned:
  assumes "debates dm (sp_DebateID speech) = Some a"
    and "SupportingBot a = None" and "OpposingBot a = None"
  shows "\<exists>err. HandleSpeech e now speech dm = (dm, Returns (Some err)) \<and>
           ErrorCode err = ''INVALID_DEBATE_KEY'' \<and> Recoverable err = False \<and>
           err_DebateID err = sp_DebateID speech"
  using assms
  by (simp add: HandleSpeech_def findSpeakerBot_unassigned speechError_def)

theorem speech_before_sides_assigned_witness:
  "(\<exists>a. debates twoJoined (sp_DebateID (speechOf ''alpha-uuid0001'' ''key-a'' ''hello world'')) = Some a \<and>
        SupportingBot a = None \<and> OpposingBot a = None \<and> BotA a \<noteq> None \<and> BotB a \<noteq> None) \<and>
   (\<exists>err. HandleSpeech exampleEnv 3 (speechOf ''alpha-uuid0001'' ''key-a'' ''hello world'') twoJoined =
            (twoJoined, Returns (Some err)) \<and>
          ErrorCode err = ''INVALID_DEBATE_KEY'' \<and> Recoverable err = False \<and>
          err_DebateID err = sp_DebateID (speechOf ''alpha-uuid0001'' ''key-a'' ''hello world''))"
proof -
  have "map_option (\<lambda>a. (SupportingBot a, OpposingBot a, BotA a \<noteq> None, BotB a \<noteq> None))
          (theDebate twoJoined) = Some (None, None, True, True)"
    by code_simp
  then obtain a where a: "debates twoJoined ''debate-d1'' = Some a"
    and s: "SupportingBot a = None" and p: "OpposingBot a = None"
    and ab: "BotA a \<noteq> None" "BotB a \<noteq> None"
    by (auto simp: theDebate_def)
  have i: "sp_DebateID (speechOf ''alpha-uuid0001'' ''key-a'' ''hello world'') = ''debate-d1''"
    by (simp add: speechOf_def)
  from a have a': "debates twoJoined (sp_DebateID (speechOf ''alpha-uuid0001'' ''key-a'' ''hello world'')) = Some a"
    by (simp only: i)
  from speech_before_sides_assigned [OF a' s p, of exampleEnv 3] a' s p ab
  show ?thesis by blast
qed

text \<open>
  C5. In a session with both sides assigned, \<open>getNextSpeaker\<close> names the supporting
  side when nobody has spoken (the last speaker is empty), the opposing side when
  the supporting side spoke last, and the supporting side when the opposing side
  spoke last (no identifier being empty, as none built by \<open>BotLogin\<close> is). A speech that names a side
  of the session and carries that side's key, from a speaker who is not the next
  speaker, is answered with \<open>NOT_YOUR_TURN\<close>, recoverable, and the manager is
  returned unchanged: no entry is added to the transcript.
\<close>

theorem next_speaker_and_not_your_turn:
  assumes "debates dm (sp_DebateID speech) = Some a"
    and "SupportingBot a = Some sb" and "OpposingBot a = Some ob"
    and "BotIdentifier (Bot sb) \<noteq> ''''" and "BotIdentifier (Bot ob) \<noteq> ''''"
  shows "(LastSpeaker a = '''' \<longrightarrow> getNextSpeaker a = Returns (BotIdentifier (Bot sb))) \<and>
         (LastSpeaker a = BotIdentifier (Bot sb) \<longrightarrow>
            getNextSpeaker a = Returns (BotIdentifier (Bot ob))) \<and>
         (LastSpeaker a = BotIdentifier (Bot ob) \<longrightarrow>
            getNextSpeaker a = Returns (BotIdentifier (Bot sb))) \<and>
         ((\<exists>b. findSpeakerBot a (sp_Speaker speech) = Some b \<and>
                DebateKey (Bot b) = sp_DebateKey speech) \<and>
          getNextSpeaker a \<noteq> Returns (sp_Speaker speech) \<longrightarrow>
            (\<exists>err. HandleSpeech e now speech dm = (dm, Returns (Some err)) \<and>
                    ErrorCode err = ''NOT_YOUR_TURN'' \<and> Recoverable err = True))"
proof (intro conjI impI)
  assume "LastSpeaker a = ''''"
  with assms show "getNextSpeaker a = Returns (BotIdentifier (Bot sb))"
    by (simp add: getNextSpeaker_def)
next
  assume "LastSpeaker a = BotIdentifier (Bot sb)"
  with assms show "getNextSpeaker a = Returns (BotIdentifier (Bot ob))"
    by (simp add: getNextSpeaker_def)
next
  assume "LastSpeaker a = BotIdentifier (Bot ob)"
  with assms show "getNextSpeaker a = Returns (BotIdentifier (Bot sb))"
    by (auto simp: getNextSpeaker_def)
next
  assume h: "(\<exists>b. findSpeakerBot a (sp_Speaker speech) = Some b \<and>
                DebateKey (Bot b) = sp_DebateKey speech) \<and>
          getNextSpeaker a \<noteq> Returns (sp_Speaker speech)"
  then obtain b where b: "findSpeakerBot a (sp_Speaker speech) = Some b"
    and k: "DebateKey (Bot b) = sp_DebateKey speech" by blast
  from assms have "\<exists>x. getNextSpeaker a = Returns x"
    by (simp add: getNextSpeaker_def)
  then obtain x where x: "getNextSpeaker a = Returns x" ..
  with h have ne: "sp_Speaker speech \<noteq> x" by auto
  show "\<exists>err. HandleSpeech e now speech dm = (dm, Returns (Some err)) \<and>
              ErrorCode err = ''NOT_YOUR_TURN'' \<and> Recoverable err = True"
    using assms(1) b k x ne
    by (simp add: HandleSpeech_def speechError_def)
qed

theorem next_speaker_and_not_your_turn_witness:
  "(\<exists>a sb ob. debates started ''debate-d1'' = Some a \<and>
      SupportingBot a = Some sb \<and> OpposingBot a = Some ob \<and>
      Status (Debate a) = ''active'' \<and> LastSpeaker a = '''' \<and> DebateLog a = [] \<and>
      BotIdentifier (Bot sb) = ''alpha-uuid0001'' \<and> BotIdentifier (Bot ob) = ''beta-uuid0002'' \<and>
      getNextSpeaker a = Returns ''alpha-uuid0001'' \<and>
      findSpeakerBot a ''beta-uuid0002'' = Some ob \<and> DebateKey (Bot ob) = ''key-b'') \<and>
   (\<exists>err. HandleSpeech exampleEnv 4 (speechOf ''beta-uuid0002'' ''key-b'' ''hello world'') started =
            (started, Returns (Some err)) \<and>
          ErrorCode err = ''NOT_YOUR_TURN'' \<and> Recoverable err = True)"
proof -
  have "map_option
          (\<lambda>a. (map_option (\<lambda>b. (BotIdentifier (Bot b), DebateKey (Bot b))) (SupportingBot a),
                map_option (\<lambda>b. (BotIdentifier (Bot b), DebateKey (Bot b))) (OpposingBot a),
                Status (Debate a), LastSpeaker a, DebateLog a))
          (theDebate started)
        = Some (Some (''alpha-uuid0001'', ''key-a''), Some (''beta-uuid0002'', ''key-b''),
                ''active'', '''', [])"
    by code_simp
  then obtain a sb ob where a: "debates started ''debate-d1'' = Some a"
    and sb: "SupportingBot a = Some sb" and ob: "OpposingBot a = Some ob"
    and st: "Status (Debate a) = ''active''" and ls: "LastSpeaker a = ''''"
    and lg: "DebateLog a = []"
    and ids: "BotIdentifier (Bot sb) = ''alpha-uuid0001''" "BotIdentifier (Bot ob) = ''beta-uuid0002''"
    and key: "DebateKey (Bot ob) = ''key-b''"
    by (auto simp: theDebate_def)
  let ?sp = "speechOf ''beta-uuid0002'' ''key-b'' ''hello world''"
  have sp: "sp_DebateID ?sp = ''debate-d1''" "sp_Speaker ?sp = ''beta-uuid0002''"
    "sp_DebateKey ?sp = ''key-b''"
    by (simp_all add: speechOf_def)
  have a': "debates started (sp_DebateID ?sp) = Some a" using a by (simp only: sp)
  have n1: "BotIdentifier (Bot sb) \<noteq> ''''" and n2: "BotIdentifier (Bot ob) \<noteq> ''''"
    by (simp_all add: ids)
  note inst = next_speaker_and_not_your_turn [OF a' sb ob n1 n2, of exampleEnv 4]
  from inst ls have nx: "getNextSpeaker a = Returns ''alpha-uuid0001''"
    by (simp add: ids)
  have fs: "findSpeakerBot a ''beta-uuid0002'' = Some ob"
    by (simp add: findSpeakerBot_def sb ob ids)
  have "\<exists>err. HandleSpeech exampleEnv 4 ?sp started = (started, Returns (Some err)) \<and>
          ErrorCode err = ''NOT_YOUR_TURN'' \<and> Recoverable err = True"
    using inst fs key nx by (simp add: sp)
  with a sb ob st ls lg ids nx fs key show ?thesis by blast
qed

section \<open>BotLogin\<close>

lemma joinDebate_no_panic:
  "8 \<le> length (req_BotUUID loginReq) \<Longrightarrow>
   snd (joinDebate now debateKey loginReq conn debateID a dm) \<noteq> LoginPanics"
  by (simp add: joinDebate_def Let_def split: option.splits)

lemma loginToDebate_no_panic:
  "8 \<le> length (req_BotUUID loginReq) \<Longrightarrow>
   snd (loginToDebate now debateKey loginReq conn debateID dm) \<noteq> LoginPanics"
  by (simp add: loginToDebate_def joinDebate_no_panic split: option.splits)

lemma joinDebate_short_uuid:
  "length (req_BotUUID loginReq) < 8 \<Longrightarrow> BotA a = None \<or> BotB a = None \<Longrightarrow>
   joinDebate now debateKey loginReq conn debateID a dm = (dm, LoginPanics)"
  by (auto simp: joinDebate_def)

text \<open>
  C9. \<open>BotLogin\<close> does not panic on a request whose \<open>bot_uuid\<close> has at least eight
  bytes. On a shorter one it does: whenever the request names a session of the
  live registry that still has a free slot, the slice \<open>BotUUID[:8]\<close> is out of
  range and the call panics.
\<close>

theorem login_panics_on_short_uuid:
  "(8 \<le> length (req_BotUUID loginReq) \<longrightarrow>
      snd (BotLogin now debateKey loginReq conn dm) \<noteq> LoginPanics) \<and>
   (length (req_BotUUID loginReq) < 8 \<and> req_DebateID loginReq \<noteq> '''' \<and>
    debates dm (req_DebateID loginReq) = Some a \<and> (BotA a = None \<or> BotB a = None) \<longrightarrow>
      BotLogin now debateKey loginReq conn dm = (dm, LoginPanics))"
proof (intro conjI impI)
  assume "8 \<le> length (req_BotUUID loginReq)"
  then show "snd (BotLogin now debateKey loginReq conn dm) \<noteq> LoginPanics"
    by (simp add: BotLogin_def loginToDebate_no_panic split: option.splits)
next
  assume h: "length (req_BotUUID loginReq) < 8 \<and> req_DebateID loginReq \<noteq> '''' \<and>
    debates dm (req_DebateID loginReq) = Some a \<and> (BotA a = None \<or> BotB a = None)"
  then have "joinDebate now debateKey loginReq conn (req_DebateID loginReq) a dm = (dm, LoginPanics)"
    by (intro joinDebate_short_uuid) auto
  with h show "BotLogin now debateKey loginReq conn dm = (dm, LoginPanics)"
    by (simp add: BotLogin_def loginToDebate_def)
qed

theorem login_panics_on_short_uuid_witness:
  "(8 \<le> length ''uuid0001'' \<and>
    snd (BotLogin 1 ''key-a''
           \<lparr>req_BotName = ''alpha'', req_BotUUID = ''uuid0001'', req_DebateID = ''debate-d1''\<rparr>
           10 created) \<noteq> LoginPanics) \<and>
   (length ''abc'' < 8 \<and>
    (\<exists>a. debates created ''debate-d1'' = Some a \<and> BotA a = None) \<and>
    BotLogin 1 ''key-a''
      \<lparr>req_BotName = ''alpha'', req_BotUUID = ''abc'', req_DebateID = ''debate-d1''\<rparr>
      10 created = (created, LoginPanics)) \<and>
   snd (BotLogin 1 ''key-a''
          \<lparr>req_BotName = ''alpha'', req_BotUUID = ''abc'', req_DebateID = ''''\<rparr>
          10 created) = LoginPanics"
proof -
  have "map_option BotA (theDebate created) = Some None" by code_simp
  then obtain a where a: "debates created ''debate-d1'' = Some a" and b: "BotA a = None"
    by (auto simp: theDebate_def)
  have auto_assigned:
    "snd (BotLogin 1 ''key-a''
          \<lparr>req_BotName = ''alpha'', req_BotUUID = ''abc'', req_DebateID = ''''\<rparr>
          10 created) = LoginPanics"
    by code_simp
  from login_panics_on_short_uuid
         [of "\<lparr>req_BotName = ''alpha'', req_BotUUID = ''uuid0001'', req_DebateID = ''debate-d1''\<rparr>"
             1 "''key-a''" 10 created a]
  have ok: "snd (BotLogin 1 ''key-a''
           \<lparr>req_BotName = ''alpha'', req_BotUUID = ''uuid0001'', req_DebateID = ''debate-d1''\<rparr>
           10 created) \<noteq> LoginPanics"
    by simp
  from login_panics_on_short_uuid
         [of "\<lparr>req_BotName = ''alpha'', req_BotUUID = ''abc'', req_DebateID = ''debate-d1''\<rparr>"
             1 "''key-a''" 10 created a] a b
  have bad: "BotLogin 1 ''key-a''
      \<lparr>req_BotName = ''alpha'', req_BotUUID = ''abc'', req_DebateID = ''debate-d1''\<rparr>
      10 created = (created, LoginPanics)"
    by simp
  from ok bad auto_assigned a b show ?thesis by auto
qed










section \<open>The judge\<close>

lemma Index_less: "Index s c = Some i \<Longrightarrow> i < length s"
  by (induction s arbitrary: i) (auto split: if_splits)

lemma LastIndex_less: "LastIndex s c = Some j \<Longrightarrow> j < length s"
  by (cases s) (auto simp: LastIndex_def)

text \<open>The slice from the first \<open>{\<close> to the last \<open>}\<close>: it panics exactly when the
  last \<open>}\<close> lies more than one byte before the first \<open>{\<close>.\<close>

lemma slice_between_braces:
  assumes "LastIndex response c = Some endIdx"
  shows "slice response startIdx (Suc endIdx) =
     (if startIdx \<le> Suc endIdx
      then Returns (take (Suc endIdx - startIdx) (drop startIdx response))
      else Panics)"
  using LastIndex_less [OF assms] by (simp add: slice_def)

lemma parseJudgeResponse_no_braces:
  assumes "Index response CHR ''{'' = None \<or> LastIndex response CHR ''}'' = None"
  shows "parseJudgeResponse e response = Fails"
  using assms by (auto simp: parseJudgeResponse_def split: option.splits)

lemma parseJudgeResponse_undecoded:
  assumes "Index response CHR ''{'' = Some startIdx"
    and "LastIndex response CHR ''}'' = Some endIdx"
    and "startIdx \<le> endIdx + 1"
    and "json_Unmarshal e (take (endIdx + 1 - startIdx) (drop startIdx response)) = None"
  shows "parseJudgeResponse e response = Fails"
  using assms by (simp add: parseJudgeResponse_def slice_between_braces)

lemma parseJudgeResponse_panics:
  assumes "Index response CHR ''{'' = Some startIdx"
    and "LastIndex response CHR ''}'' = Some endIdx"
    and "endIdx + 1 < startIdx"
  shows "parseJudgeResponse e response = Panics"
  using assms by (simp add: parseJudgeResponse_def slice_between_braces)

lemma parseJudgeResponse_validated:
  assumes "parseJudgeResponse e response = Returns r"
  shows "Winner r \<in> {''supporting'', ''opposing'', ''draw''}"
    and "0 \<le> SupportingScore r \<and> SupportingScore r \<le> 100"
    and "0 \<le> OpposingScore r \<and> OpposingScore r \<le> 100"
  using assms
  by (auto simp: parseJudgeResponse_def Let_def
           split: option.splits outcome.splits if_splits)

lemma parseJudgeResponse_decoded:
  assumes "Index response CHR ''{'' = Some startIdx"
    and "LastIndex response CHR ''}'' = Some endIdx"
    and "slice response startIdx (endIdx + 1) = Returns jsonStr"
    and "json_Unmarshal e jsonStr = Some judgeData"
  shows "parseJudgeResponse e response =
     Returns \<lparr>Winner = (if jd_Winner judgeData \<in> {''supporting'', ''opposing'', ''draw''}
                         then jd_Winner judgeData else ''draw''),
              SupportingScore = (if 0 \<le> jd_SupportingScore judgeData \<and>
                                    jd_SupportingScore judgeData \<le> 100
                                 then jd_SupportingScore judgeData else 50),
              OpposingScore = (if 0 \<le> jd_OpposingScore judgeData \<and>
                                  jd_OpposingScore judgeData \<le> 100
                               then jd_OpposingScore judgeData else 50),
              Summary = SummaryJudge (jd_Summary judgeData), Reason = ''''\<rparr>"
  using assms by (auto simp: parseJudgeResponse_def Let_def)

lemma generateDebateResult_judged:
  assumes "chatgptClient e = Some c" and "SupportingBot a = Some sb" and "OpposingBot a = Some ob"
    and "0 < supportingCount a" and "0 < opposingCount a"
  shows "generateDebateResult e a status reason =
     (case JudgeDebate e c (Topic (Debate a)) (DebateLog a)
             (BotIdentifier (Bot sb)) (BotIdentifier (Bot ob)) of
        Panics \<Rightarrow> Panics
      | Returns result \<Rightarrow> Returns result
      | Fails \<Rightarrow> Returns (fallbackResult e a status reason))"
  using assms by (simp add: generateDebateResult_def countSpeeches_counts)

text \<open>
  C8, as the code has it. A reply of the judge that decodes is used with its winner
  replaced by \<open>draw\<close> unless it is one of the three allowed values and each score
  replaced by 50 unless it lies in [0,100]. When the request to the judge fails, the
  result is the one of the fallback scorer. When the reply arrives but
  \<open>parseJudgeResponse\<close> reports an error, \<open>JudgeDebate\<close> itself returns the neutral
  result (draw, 50 to 50, the raw reply as summary) without an error, and that is
  the result of the session: the fallback scorer is not used. That is so for every
  reply without a \<open>{\<close> or without a \<open>}\<close>, and for every reply whose last \<open>}\<close> lies
  no more than one byte before its first \<open>{\<close> and whose text from the first \<open>{\<close>
  through the last \<open>}\<close> does not decode. Nothing is said here of a reply whose
  last \<open>}\<close> lies further before its first \<open>{\<close>.
\<close>

theorem judge_results:
  assumes "chatgptClient e = Some c" and "SupportingBot a = Some sb" and "OpposingBot a = Some ob"
    and "0 < supportingCount a" and "0 < opposingCount a"
    and "reply = SendMessage e c (Topic (Debate a)) (DebateLog a)
                   (BotIdentifier (Bot sb)) (BotIdentifier (Bot ob))"
  shows "(reply = Fails \<longrightarrow>
            generateDebateResult e a status reason = Returns (fallbackResult e a status reason)) \<and>
         (reply = Returns response \<and> parseJudgeResponse e response = Fails \<longrightarrow>
            generateDebateResult e a status reason =
              Returns \<lparr>Winner = ''draw'', SupportingScore = 50, OpposingScore = 50,
                       Summary = SummaryUnparsed response, Reason = ''''\<rparr>) \<and>
         (reply = Returns response \<and> parseJudgeResponse e response = Returns r \<longrightarrow>
            generateDebateResult e a status reason = Returns r \<and>
            Winner r \<in> {''supporting'', ''opposing'', ''draw''} \<and>
            0 \<le> SupportingScore r \<and> SupportingScore r \<le> 100 \<and>
            0 \<le> OpposingScore r \<and> OpposingScore r \<le> 100) \<and>
         (reply = Returns response \<and> json_Unmarshal e jsonStr = Some judgeData \<and>
          Index response CHR ''{'' = Some startIdx \<and> LastIndex response CHR ''}'' = Some endIdx \<and>
          slice response startIdx (endIdx + 1) = Returns jsonStr \<longrightarrow>
            generateDebateResult e a status reason =
              Returns \<lparr>Winner = (if jd_Winner judgeData \<in> {''supporting'', ''opposing'', ''draw''}
                                  then jd_Winner judgeData else ''draw''),
                       SupportingScore = (if 0 \<le> jd_SupportingScore judgeData \<and>
                                             jd_SupportingScore judgeData \<le> 100
                                          then jd_SupportingScore judgeData else 50),
                       OpposingScore = (if 0 \<le> jd_OpposingScore judgeData \<and>
                                           jd_OpposingScore judgeData \<le> 100
                                        then jd_OpposingScore judgeData else 50),
                       Summary = SummaryJudge (jd_Summary judgeData), Reason = ''''\<rparr>) \<and>
         (reply = Returns response \<and>
          (Index response CHR ''{'' = None \<or> LastIndex response CHR ''}'' = None) \<longrightarrow>
            generateDebateResult e a status reason =
              Returns \<lparr>Winner = ''draw'', SupportingScore = 50, OpposingScore = 50,
                       Summary = SummaryUnparsed response, Reason = ''''\<rparr>) \<and>
         (reply = Returns response \<and>
          Index response CHR ''{'' = Some firstBrace \<and> LastIndex response CHR ''}'' = Some lastBrace \<and>
          firstBrace \<le> lastBrace + 1 \<and>
          json_Unmarshal e (take (lastBrace + 1 - firstBrace) (drop firstBrace response)) = None \<longrightarrow>
            generateDebateResult e a status reason =
              Returns \<lparr>Winner = ''draw'', SupportingScore = 50, OpposingScore = 50,
                       Summary = SummaryUnparsed response, Reason = ''''\<rparr>)"
proof -
  note g = generateDebateResult_judged [OF assms(1-5), of status reason]
  note s = assms(6) [symmetric]
  have neutral: "generateDebateResult e a status reason =
              Returns \<lparr>Winner = ''draw'', SupportingScore = 50, OpposingScore = 50,
                       Summary = SummaryUnparsed response, Reason = ''''\<rparr>"
    if "reply = Returns response" and "parseJudgeResponse e response = Fails"
    using that unfolding g by (simp add: JudgeDebate_def s)
  show ?thesis
  proof (intro conjI impI)
    assume "reply = Fails"
    then show "generateDebateResult e a status reason = Returns (fallbackResult e a status reason)"
      unfolding g by (simp add: JudgeDebate_def s)
  next
    assume "reply = Returns response \<and> parseJudgeResponse e response = Fails"
    then show "generateDebateResult e a status reason =
              Returns \<lparr>Winner = ''draw'', SupportingScore = 50, OpposingScore = 50,
                       Summary = SummaryUnparsed response, Reason = ''''\<rparr>"
      by (intro neutral) simp_all
  next
    assume h: "reply = Returns response \<and> parseJudgeResponse e response = Returns r"
    then show "generateDebateResult e a status reason = Returns r"
      unfolding g by (simp add: JudgeDebate_def s)
    from h have p: "parseJudgeResponse e response = Returns r" ..
    from parseJudgeResponse_validated [OF p]
    show "Winner r \<in> {''supporting'', ''opposing'', ''draw''}"
      and "0 \<le> SupportingScore r" and "SupportingScore r \<le> 100"
      and "0 \<le> OpposingScore r" and "OpposingScore r \<le> 100"
      by simp_all
  next
    assume h: "reply = Returns response \<and> json_Unmarshal e jsonStr = Some judgeData \<and>
          Index response CHR ''{'' = Some startIdx \<and> LastIndex response CHR ''}'' = Some endIdx \<and>
          slice response startIdx (endIdx + 1) = Returns jsonStr"
    then have p: "parseJudgeResponse e response = Returns
        \<lparr>Winner = (if jd_Winner judgeData \<in> {''supporting'', ''opposing'', ''draw''}
                                  then jd_Winner judgeData else ''draw''),
                       SupportingScore = (if 0 \<le> jd_SupportingScore judgeData \<and>
                                             jd_SupportingScore judgeData \<le> 100
                                          then jd_SupportingScore judgeData else 50),
                       OpposingScore = (if 0 \<le> jd_OpposingScore judgeData \<and>
                                           jd_OpposingScore judgeData \<le> 100
                                        then jd_OpposingScore judgeData else 50),
                       Summary = SummaryJudge (jd_Summary judgeData), Reason = ''''\<rparr>"
      by (intro parseJudgeResponse_decoded) auto
    from h show "generateDebateResult e a status reason =
              Returns \<lparr>Winner = (if jd_Winner judgeData \<in> {''supporting'', ''opposing'', ''draw''}
                                  then jd_Winner judgeData else ''draw''),
                       SupportingScore = (if 0 \<le> jd_SupportingScore judgeData \<and>
                                             jd_SupportingScore judgeData \<le> 100
                                          then jd_SupportingScore judgeData else 50),
                       OpposingScore = (if 0 \<le> jd_OpposingScore judgeData \<and>
                                           jd_OpposingScore judgeData \<le> 100
                                        then jd_OpposingScore judgeData else 50),
                       Summary = SummaryJudge (jd_Summary judgeData), Reason = ''''\<rparr>"
      unfolding g by (simp add: JudgeDebate_def s p)
  next
    assume h: "reply = Returns response \<and>
          (Index response CHR ''{'' = None \<or> LastIndex response CHR ''}'' = None)"
    then have "parseJudgeResponse e response = Fails"
      by (intro parseJudgeResponse_no_braces) simp
    with h show "generateDebateResult e a status reason =
              Returns \<lparr>Winner = ''draw'', SupportingScore = 50, OpposingScore = 50,
                       Summary = SummaryUnparsed response, Reason = ''''\<rparr>"
      by (intro neutral) simp_all
  next
    assume h: "reply = Returns response \<and>
          Index response CHR ''{'' = Some firstBrace \<and> LastIndex response CHR ''}'' = Some lastBrace \<and>
          firstBrace \<le> lastBrace + 1 \<and>
          json_Unmarshal e (take (lastBrace + 1 - firstBrace) (drop firstBrace response)) = None"
    then have "parseJudgeResponse e response = Fails"
      by (intro parseJudgeResponse_undecoded [of response firstBrace lastBrace]) simp_all
    with h show "generateDebateResult e a status reason =
              Returns \<lparr>Winner = ''draw'', SupportingScore = 50, OpposingScore = 50,
                       Summary = SummaryUnparsed response, Reason = ''''\<rparr>"
      by (intro neutral) simp_all
  qed
qed

text \<open>
  C8 as stated fails: the judge of \<open>judgeEnv\<close> answers the completed debate with a
  text that holds no JSON object. The result is the neutral one built by
  \<open>JudgeDebate\<close>, with winner \<open>draw\<close>; the fallback scorer would have said \<open>none\<close>.
\<close>

theorem malformed_reply_counterexample:
  "map_option
     (\<lambda>a. (SendMessage judgeEnv \<lparr>APIKey = ''sk-test''\<rparr> (Topic (Debate a)) (DebateLog a)
              ''alpha-uuid0001'' ''beta-uuid0002'',
            parseJudgeResponse judgeEnv ''I cannot decide'',
            generateDebateResult judgeEnv a ''completed'' ''completed'',
            Winner (fallbackResult judgeEnv a ''completed'' ''completed''),
            generateDebateResult judgeEnv a ''completed'' ''completed'' =
              Returns (fallbackResult judgeEnv a ''completed'' ''completed'')))
     (theDebate completed)
   = Some (Returns ''I cannot decide'', Fails,
           Returns \<lparr>Winner = ''draw'', SupportingScore = 50, OpposingScore = 50,
                    Summary = SummaryUnparsed ''I cannot decide'', Reason = ''''\<rparr>,
           ''none'', False)"
  by code_simp

theorem judge_results_witness:
  "\<exists>a. theDebate completed = Some a \<and> 0 < supportingCount a \<and> 0 < opposingCount a \<and>
      generateDebateResult unreachableJudgeEnv a ''completed'' ''completed'' =
        Returns (fallbackResult unreachableJudgeEnv a ''completed'' ''completed'') \<and>
      parseJudgeResponse judgeEnv ''I cannot decide'' = Fails \<and>
      Index ''I cannot decide'' CHR ''{'' = None \<and>
      generateDebateResult judgeEnv a ''completed'' ''completed'' =
        Returns \<lparr>Winner = ''draw'', SupportingScore = 50, OpposingScore = 50,
                 Summary = SummaryUnparsed ''I cannot decide'', Reason = ''''\<rparr> \<and>
      Index ''result {oops}'' CHR ''{'' = Some 7 \<and> LastIndex ''result {oops}'' CHR ''}'' = Some 12 \<and>
      json_Unmarshal garbledEnv (take (12 + 1 - 7) (drop 7 ''result {oops}'')) = None \<and>
      generateDebateResult garbledEnv a ''completed'' ''completed'' =
        Returns \<lparr>Winner = ''draw'', SupportingScore = 50, OpposingScore = 50,
                 Summary = SummaryUnparsed ''result {oops}'', Reason = ''''\<rparr> \<and>
      parseJudgeResponse decodingEnv ''verdict: {}'' =
        Returns \<lparr>Winner = ''draw'', SupportingScore = 0, OpposingScore = 0,
                 Summary = SummaryJudge '''', Reason = ''''\<rparr> \<and>
      generateDebateResult decodingEnv a ''completed'' ''completed'' =
        Returns \<lparr>Winner = ''draw'', SupportingScore = 0, OpposingScore = 0,
                 Summary = SummaryJudge '''', Reason = ''''\<rparr>"
proof -
  have "map_option
          (\<lambda>a. (SupportingBot a \<noteq> None, OpposingBot a \<noteq> None,
                0 < supportingCount a, 0 < opposingCount a))
          (theDebate completed) = Some (True, True, True, True)"
    by code_simp
  then obtain a sb ob where a: "theDebate completed = Some a"
    and sb: "SupportingBot a = Some sb" and ob: "OpposingBot a = Some ob"
    and sc: "0 < supportingCount a" and oc: "0 < opposingCount a"
    by auto
  let ?c = "\<lparr>APIKey = ''sk-test''\<rparr>"
  \<comment> \<open>the request fails\<close>
  have c1: "chatgptClient unreachableJudgeEnv = Some ?c"
    by (simp add: unreachableJudgeEnv_def)
  have r1: "SendMessage unreachableJudgeEnv ?c (Topic (Debate a)) (DebateLog a)
              (BotIdentifier (Bot sb)) (BotIdentifier (Bot ob)) = Fails"
    by (simp add: SendMessage_def unreachableJudgeEnv_def exampleEnv_def)
  from judge_results [OF c1 sb ob sc oc refl, of "''completed''" "''completed''"] r1
  have w1: "generateDebateResult unreachableJudgeEnv a ''completed'' ''completed'' =
        Returns (fallbackResult unreachableJudgeEnv a ''completed'' ''completed'')"
    by simp
  \<comment> \<open>the reply holds no brace\<close>
  have c2: "chatgptClient judgeEnv = Some ?c"
    by (simp add: judgeEnv_def)
  have r2: "SendMessage judgeEnv ?c (Topic (Debate a)) (DebateLog a)
              (BotIdentifier (Bot sb)) (BotIdentifier (Bot ob)) = Returns ''I cannot decide''"
    by (simp add: SendMessage_def judgeEnv_def exampleEnv_def)
  have p2: "parseJudgeResponse judgeEnv ''I cannot decide'' = Fails"
    by code_simp
  have i2: "Index ''I cannot decide'' CHR ''{'' = None"
    by code_simp
  from judge_results [OF c2 sb ob sc oc refl, where response = "''I cannot decide''"
         and status = "''completed''" and reason = "''completed''"] r2 p2 i2
  have w2: "generateDebateResult judgeEnv a ''completed'' ''completed'' =
        Returns \<lparr>Winner = ''draw'', SupportingScore = 50, OpposingScore = 50,
                 Summary = SummaryUnparsed ''I cannot decide'', Reason = ''''\<rparr>"
    by simp
  \<comment> \<open>the text between the braces does not decode\<close>
  have c4: "chatgptClient garbledEnv = Some ?c"
    by (simp add: garbledEnv_def decodingEnv_def)
  have r4: "SendMessage garbledEnv ?c (Topic (Debate a)) (DebateLog a)
              (BotIdentifier (Bot sb)) (BotIdentifier (Bot ob)) = Returns ''result {oops}''"
    by (simp add: SendMessage_def garbledEnv_def decodingEnv_def exampleEnv_def)
  have i4: "Index ''result {oops}'' CHR ''{'' = Some 7"
    and l4: "LastIndex ''result {oops}'' CHR ''}'' = Some 12"
    and j4: "json_Unmarshal garbledEnv (take (12 + 1 - 7) (drop 7 ''result {oops}'')) = None"
    by code_simp+
  from judge_results [OF c4 sb ob sc oc refl, where response = "''result {oops}''"
         and status = "''completed''" and reason = "''completed''"
         and firstBrace = 7 and lastBrace = 12] r4 i4 l4 j4
  have w4: "generateDebateResult garbledEnv a ''completed'' ''completed'' =
        Returns \<lparr>Winner = ''draw'', SupportingScore = 50, OpposingScore = 50,
                 Summary = SummaryUnparsed ''result {oops}'', Reason = ''''\<rparr>"
    by simp
  \<comment> \<open>the reply decodes\<close>
  have c3: "chatgptClient decodingEnv = Some ?c"
    by (simp add: decodingEnv_def)
  have r3: "SendMessage decodingEnv ?c (Topic (Debate a)) (DebateLog a)
              (BotIdentifier (Bot sb)) (BotIdentifier (Bot ob)) = Returns ''verdict: {}''"
    by (simp add: SendMessage_def decodingEnv_def exampleEnv_def)
  have p3: "parseJudgeResponse decodingEnv ''verdict: {}'' =
        Returns \<lparr>Winner = ''draw'', SupportingScore = 0, OpposingScore = 0,
                 Summary = SummaryJudge '''', Reason = ''''\<rparr>"
    by code_simp
  from judge_results [OF c3 sb ob sc oc refl, where response = "''verdict: {}''"
         and status = "''completed''" and reason = "''completed''"
         and r = "\<lparr>Winner = ''draw'', SupportingScore = 0, OpposingScore = 0,
                 Summary = SummaryJudge '''', Reason = ''''\<rparr>"] r3 p3
  have w3: "generateDebateResult decodingEnv a ''completed'' ''completed'' =
        Returns \<lparr>Winner = ''draw'', SupportingScore = 0, OpposingScore = 0,
                 Summary = SummaryJudge '''', Reason = ''''\<rparr>"
    by simp
  from a sc oc w1 p2 i2 w2 i4 l4 j4 w4 p3 w3 show ?thesis by blast
qed

section \<open>What a step does to the session\<close>

lemma debates_updateDebate:
  "debates (updateDebate debateID f dm) i =
     (if i = debateID then map_option f (debates dm i) else debates dm i)"
  by (simp add: updateDebate_def split: option.splits)

lemma updateDebate_other [simp]:
  "db (updateDebate debateID f dm) = db dm"
  "broadcast (updateDebate debateID f dm) = broadcast dm"
  "sent (updateDebate debateID f dm) = sent dm"
  by (simp_all add: updateDebate_def split: option.splits)

text \<open>\<open>endDebate\<close> on a session of the registry, whatever its status: the status is
  overwritten and, unless the judge panics, one more \<open>debate_end\<close> goes to the
  observers.\<close>

lemma endDebate_overwrites_status:
  assumes "debates dm debateID = Some a"
  shows "map_option (\<lambda>a. Status (Debate a))
           (debates (fst (endDebate e now debateID status reason dm)) debateID) = Some status"
  using assms
  by (simp add: endDebate_def Let_def split: outcome.splits)

lemma endDebate_broadcasts:
  assumes "debates dm debateID = Some a"
    and "snd (endDebate e now debateID status reason dm) = Returns ()"
  shows "debateEnds (fst (endDebate e now debateID status reason dm)) = Suc (debateEnds dm)"
  using assms
  by (simp add: endDebate_def Let_def debateEnds_def split: outcome.splits)

text \<open>A speech of the next speaker that is too short or too long: the answer is a
  recoverable error and the session keeps its transcript, last speaker and round,
  but its speech timer is stopped and its inactivity timer set anew.\<close>

lemma HandleSpeech_content_rejected:
  assumes a: "debates dm (sp_DebateID speech) = Some a"
    and b: "findSpeakerBot a (sp_Speaker speech) = Some b"
    and k: "DebateKey (Bot b) = sp_DebateKey speech"
    and n: "getNextSpeaker a = Returns (sp_Speaker speech)"
    and c: "int (length (TrimSpace e (Content (sp_Message speech)))) < MinContentLength (config e) \<or>
            int (length (TrimSpace e (Content (sp_Message speech)))) > MaxContentLength (config e)"
  shows "debates (fst (HandleSpeech e now speech dm)) (sp_DebateID speech) =
           Some (a\<lparr>TimeoutTimer := Stop (TimeoutTimer a), LastActivityTime := now,
                   InactivityTimer := Some (Running (now + InactivityTimeout (config e)))\<rparr>)"
    and "\<exists>err. snd (HandleSpeech e now speech dm) = Returns (Some err) \<and> Recoverable err \<and>
           ErrorCode err \<in> {''CONTENT_TOO_SHORT'', ''CONTENT_TOO_LONG''}"
  using assms
  by (auto simp: HandleSpeech_def Let_def resetInactivityTimer_def startInactivityTimer_def
        debates_updateDebate speechError_def)

lemma joinDebate_identifier:
  assumes "joinDebate now debateKey loginReq conn debateID a dm = (dm', Confirmed confirmed)"
  shows "lc_BotIdentifier confirmed = req_BotName loginReq @ ''-'' @ take 8 (req_BotUUID loginReq)"
    and "lc_BotIdentifier confirmed \<noteq> ''''"
  using assms
  by (auto simp: joinDebate_def Let_def split: if_splits option.splits)

lemma debates_startTimeout:
  "debates (startTimeout e now debateID speaker dm) i =
     (if i = debateID
      then map_option (\<lambda>a. a\<lparr>TimeoutTimer := Some (Running (now + SpeechTimeout (config e)))\<rparr>)
             (debates dm i)
      else debates dm i)"
  by (simp add: startTimeout_def debates_updateDebate)

lemma debates_resetInactivityTimer:
  "debates (resetInactivityTimer e now debateID dm) i =
     (if i = debateID
      then map_option (\<lambda>a. a\<lparr>InactivityTimer := Some (Running (now + InactivityTimeout (config e)))\<rparr>)
             (debates dm i)
      else debates dm i)"
  by (cases "debates dm debateID")
     (simp_all add: resetInactivityTimer_def startInactivityTimer_def debates_updateDebate
        option.map_comp comp_def)

lemma debates_sendDebateUpdate:
  "debates (fst (sendDebateUpdate e a nextSpeaker dm)) = debates dm"
  by (simp add: sendDebateUpdate_def Let_def split: option.splits)

lemma sendDebateUpdate_returns:
  "SupportingBot a = Some sb \<Longrightarrow> OpposingBot a = Some ob \<Longrightarrow>
   snd (sendDebateUpdate e a nextSpeaker dm) = Returns ()"
  by (simp add: sendDebateUpdate_def Let_def)

lemma debates_endDebate:
  "debates (fst (endDebate e now debateID status reason dm)) i =
     (if i = debateID
      then map_option
             (\<lambda>a. a\<lparr>WaitingTimer := Stop (WaitingTimer a), TimeoutTimer := Stop (TimeoutTimer a),
                     InactivityTimer := Stop (InactivityTimer a),
                     MaxDurationTimer := Stop (MaxDurationTimer a),
                     Debate := (Debate a)\<lparr>Status := status\<rparr>\<rparr>)
             (debates dm i)
      else debates dm i)"
  by (cases "debates dm debateID")
     (simp_all add: endDebate_def Let_def split: outcome.splits)

lemma fst_case_outcome:
  "fst (case p of (d, Returns u) \<Rightarrow> (d, x) | (d, _) \<Rightarrow> (d, y)) = fst p"
  by (auto split: prod.splits outcome.splits)

text \<open>The speech of the supporting side, when it is its turn and the content has
  a valid length, is accepted whatever the status of the session: the entry is
  appended and the round stays.\<close>

lemma HandleSpeech_accepts_supporting:
  assumes a: "debates dm (sp_DebateID speech) = Some a"
    and sb: "SupportingBot a = Some sb" and ob: "OpposingBot a = Some ob"
    and sp: "sp_Speaker speech = BotIdentifier (Bot sb)"
    and k: "sp_DebateKey speech = DebateKey (Bot sb)"
    and l: "LastSpeaker a \<noteq> BotIdentifier (Bot sb)"
    and c: "MinContentLength (config e) \<le> int (length (TrimSpace e (Content (sp_Message speech))))"
           "int (length (TrimSpace e (Content (sp_Message speech)))) \<le> MaxContentLength (config e)"
  shows "snd (HandleSpeech e now speech dm) = Returns None"
    and "debates (fst (HandleSpeech e now speech dm)) (sp_DebateID speech) =
           Some (a\<lparr>TimeoutTimer := Some (Running (now + SpeechTimeout (config e))),
                   InactivityTimer := Some (Running (now + InactivityTimeout (config e))),
                   LastActivityTime := now,
                   LastSpeaker := sp_Speaker speech,
                   DebateLog := DebateLog a @
                     [\<lparr>le_Round = CurrentRound (Debate a), le_Speaker = sp_Speaker speech,
                       le_Side = Side (Bot sb), le_Timestamp = now,
                       le_Message = sp_Message speech\<rparr>]\<rparr>)"
proof -
  have f: "findSpeakerBot a (sp_Speaker speech) = Some sb"
    by (simp add: findSpeakerBot_def sb sp)
  have n: "getNextSpeaker a = Returns (sp_Speaker speech)"
    using l by (simp add: getNextSpeaker_def sb sp)
  show "snd (HandleSpeech e now speech dm) = Returns None"
    using a sb ob sp [symmetric] k c
    by (simp add: HandleSpeech_def f n Let_def advanceTurn_def debates_updateDebate
          debates_resetInactivityTimer sendDebateUpdate_def split: prod.splits)
  show "debates (fst (HandleSpeech e now speech dm)) (sp_DebateID speech) =
           Some (a\<lparr>TimeoutTimer := Some (Running (now + SpeechTimeout (config e))),
                   InactivityTimer := Some (Running (now + InactivityTimeout (config e))),
                   LastActivityTime := now,
                   LastSpeaker := sp_Speaker speech,
                   DebateLog := DebateLog a @
                     [\<lparr>le_Round = CurrentRound (Debate a), le_Speaker = sp_Speaker speech,
                       le_Side = Side (Bot sb), le_Timestamp = now,
                       le_Message = sp_Message speech\<rparr>]\<rparr>)"
    using a sb ob sp [symmetric] k c
    by (simp add: HandleSpeech_def f n Let_def advanceTurn_def debates_updateDebate
          debates_resetInactivityTimer debates_startTimeout sendDebateUpdate_def
          split: prod.splits)
qed

text \<open>The speech of the opposing side, likewise: the entry is appended and the
  round counter goes up by one, with no regard to the status or to the total.\<close>

lemma HandleSpeech_accepts_opposing:
  assumes a: "debates dm (sp_DebateID speech) = Some a"
    and sb: "SupportingBot a = Some sb" and ob: "OpposingBot a = Some ob"
    and sp: "sp_Speaker speech = BotIdentifier (Bot ob)"
    and d: "BotIdentifier (Bot ob) \<noteq> BotIdentifier (Bot sb)"
    and k: "sp_DebateKey speech = DebateKey (Bot ob)"
    and l: "LastSpeaker a = BotIdentifier (Bot sb)" "LastSpeaker a \<noteq> ''''"
    and c: "MinContentLength (config e) \<le> int (length (TrimSpace e (Content (sp_Message speech))))"
           "int (length (TrimSpace e (Content (sp_Message speech)))) \<le> MaxContentLength (config e)"
  shows "map_option (\<lambda>a. CurrentRound (Debate a))
           (debates (fst (HandleSpeech e now speech dm)) (sp_DebateID speech)) =
         Some (CurrentRound (Debate a) + 1)"
    and "map_option DebateLog
           (debates (fst (HandleSpeech e now speech dm)) (sp_DebateID speech)) =
         Some (DebateLog a @
                 [\<lparr>le_Round = CurrentRound (Debate a), le_Speaker = sp_Speaker speech,
                   le_Side = Side (Bot ob), le_Timestamp = now,
                   le_Message = sp_Message speech\<rparr>])"
proof -
  have f: "findSpeakerBot a (sp_Speaker speech) = Some ob"
    using d by (simp add: findSpeakerBot_def sb ob sp)
  have n: "getNextSpeaker a = Returns (sp_Speaker speech)"
    using l by (simp add: getNextSpeaker_def sb ob sp)
  have h: "HandleSpeech e now speech dm =
      advanceTurn e now speech
        ((updateDebate (sp_DebateID speech)
            (\<lambda>a'. a'\<lparr>DebateLog := DebateLog a' @
                        [\<lparr>le_Round = CurrentRound (Debate a), le_Speaker = sp_Speaker speech,
                          le_Side = Side (Bot ob), le_Timestamp = now,
                          le_Message = sp_Message speech\<rparr>],
                      LastSpeaker := sp_Speaker speech\<rparr>)
            (resetInactivityTimer e now (sp_DebateID speech)
               (updateDebate (sp_DebateID speech)
                  (\<lambda>a'. a'\<lparr>TimeoutTimer := Stop (TimeoutTimer a'), LastActivityTime := now\<rparr>) dm)))
         \<lparr>db := AddDebateLog
                  \<lparr>le_Round = CurrentRound (Debate a), le_Speaker = sp_Speaker speech,
                    le_Side = Side (Bot ob), le_Timestamp = now,
                    le_Message = sp_Message speech\<rparr>
                  (sp_DebateID speech) (db dm)\<rparr>)"
    using a k c by (simp add: HandleSpeech_def f n Let_def resetInactivityTimer_def
        startInactivityTimer_def)
  show "map_option (\<lambda>a. CurrentRound (Debate a))
           (debates (fst (HandleSpeech e now speech dm)) (sp_DebateID speech)) =
         Some (CurrentRound (Debate a) + 1)"
    unfolding h using a sb ob sp d
    by (simp add: advanceTurn_def Let_def debates_updateDebate debates_resetInactivityTimer
          debates_startTimeout debates_endDebate sendDebateUpdate_def fst_case_outcome)
  show "map_option DebateLog
           (debates (fst (HandleSpeech e now speech dm)) (sp_DebateID speech)) =
         Some (DebateLog a @
                 [\<lparr>le_Round = CurrentRound (Debate a), le_Speaker = sp_Speaker speech,
                   le_Side = Side (Bot ob), le_Timestamp = now,
                   le_Message = sp_Message speech\<rparr>])"
    unfolding h using a sb ob sp d
    by (simp add: advanceTurn_def Let_def debates_updateDebate debates_resetInactivityTimer
          debates_startTimeout debates_endDebate sendDebateUpdate_def fst_case_outcome)
qed

section \<open>The run after the terminal transition\<close>

text \<open>
  C1, at the failing input. Beta's speech completes the debate: \<open>endDebate\<close> stores
  the result and broadcasts one \<open>debate_end\<close>. Alpha's next speech is accepted and
  arms the speech timer again; when it fires, \<open>endDebate\<close> runs a second time on
  the session that is already \<open>completed\<close>: it overwrites the status with
  \<open>timeout\<close>, sends \<open>debate_end\<close> to both bots again and broadcasts a second
  \<open>debate_end\<close>. Only the stored result stays single, the insert failing on the
  primary key. The same happens when \<open>endDebate\<close> is simply called twice on the
  started debate.
\<close>

theorem endDebate_twice_broadcasts_twice:
  "map_option (\<lambda>a. Status (Debate a)) (theDebate completed) = Some ''completed'' \<and>
   debateEnds completed = 1 \<and> debateEndsSent completed = 2 \<and>
   length (debate_results_table (db completed)) = 1 \<and>
   map_option TimeoutTimer (theDebate lateAlpha) = Some (Some (Running 126)) \<and>
   snd (fireTimeoutTimer exampleEnv 126 ''debate-d1'' lateAlpha) = Returns () \<and>
   map_option (\<lambda>a. Status (Debate a)) (theDebate timedOutAfterCompletion) = Some ''timeout'' \<and>
   map_option Status (GetDebate (db timedOutAfterCompletion) ''debate-d1'') = Some ''timeout'' \<and>
   debateEnds timedOutAfterCompletion = 2 \<and> debateEndsSent timedOutAfterCompletion = 4 \<and>
   length (debate_results_table (db timedOutAfterCompletion)) = 1 \<and>
   debateEnds (fst (endDebate exampleEnv 9 ''debate-d1'' ''timeout'' ''max_duration_timeout''
                (fst (endDebate exampleEnv 8 ''debate-d1'' ''timeout'' ''speech_timeout'' started)))) = 2"
  by code_simp

text \<open>
  C2, at the failing input. The debate is completed, its timers stopped. Alpha's
  speech is still accepted: it is appended to the transcript (in memory and in the
  store), the last speaker changes, and the speech and inactivity timers run
  again. Beta's answer is accepted too and raises the round counter.
\<close>

theorem speech_after_completion_is_accepted:
  "map_option (\<lambda>a. (Status (Debate a), length (DebateLog a), LastSpeaker a,
                     CurrentRound (Debate a), TimeoutTimer a, InactivityTimer a))
     (theDebate completed)
     = Some (''completed'', 2, ''beta-uuid0002'', 2, Some Stopped, Some Stopped) \<and>
   length (debate_log_table (db completed)) = 2 \<and>
   snd (HandleSpeech exampleEnv 6 (speechOf ''alpha-uuid0001'' ''key-a'' ''one more thing'') completed)
     = Returns None \<and>
   map_option (\<lambda>a. (Status (Debate a), length (DebateLog a), LastSpeaker a,
                     CurrentRound (Debate a), TimeoutTimer a, InactivityTimer a))
     (theDebate lateAlpha)
     = Some (''completed'', 3, ''alpha-uuid0001'', 2, Some (Running 126), Some (Running 1806)) \<and>
   length (debate_log_table (db lateAlpha)) = 3 \<and>
   snd (HandleSpeech exampleEnv 7 (speechOf ''beta-uuid0002'' ''key-b'' ''and another'') lateAlpha)
     = Returns None \<and>
   map_option (\<lambda>a. (Status (Debate a), length (DebateLog a), LastSpeaker a,
                     CurrentRound (Debate a)))
     (theDebate lateBeta)
     = Some (''completed'', 4, ''beta-uuid0002'', 3)"
  by code_simp

text \<open>
  C6, at the failing input. The debate has one round. The counter starts at 1 and
  is 2, one more than the total, when the debate completes. The two speeches sent
  after that take it to 3, in memory and in the store.
\<close>

theorem round_counter_exceeds_total_plus_one:
  "map_option (\<lambda>a. (TotalRounds (Debate a), CurrentRound (Debate a), Status (Debate a)))
     (theDebate created) = Some (1, 1, ''waiting'') \<and>
   map_option (\<lambda>a. (TotalRounds (Debate a), CurrentRound (Debate a), Status (Debate a)))
     (theDebate afterAlpha) = Some (1, 1, ''active'') \<and>
   map_option (\<lambda>a. (TotalRounds (Debate a), CurrentRound (Debate a), Status (Debate a)))
     (theDebate completed) = Some (1, 2, ''completed'') \<and>
   map_option (\<lambda>a. (TotalRounds (Debate a), CurrentRound (Debate a), Status (Debate a)))
     (theDebate lateBeta) = Some (1, 3, ''completed'') \<and>
   map_option (\<lambda>a. CurrentRound (Debate a) > TotalRounds (Debate a) + 1)
     (theDebate lateBeta) = Some True \<and>
   map_option CurrentRound (GetDebate (db lateBeta) ''debate-d1'') = Some 3"
  by code_simp

text \<open>
  C4, at the failing input. It is alpha's turn in the started debate; the speech
  timer runs until 123 and the inactivity timer until 1803. Alpha's speech of two
  characters is rejected as too short, recoverably, and the transcript and the
  last speaker stay as they were. But the speech timer has been stopped and is not
  armed again, so it can no longer fire, and the inactivity timer has been set
  anew, to 1850.
\<close>

theorem rejected_speech_stops_speech_timer:
  "map_option (\<lambda>a. (TimeoutTimer a, InactivityTimer a, LastActivityTime a, DebateLog a,
                     LastSpeaker a))
     (theDebate started) = Some (Some (Running 123), Some (Running 1803), 3, [], '''') \<and>
   snd (HandleSpeech exampleEnv 50 (speechOf ''alpha-uuid0001'' ''key-a'' ''hi'') started)
     = Returns (Some \<lparr>ErrorCode = ''CONTENT_TOO_SHORT'',
                       err_Message = ''Speech content too short (minimum 5 characters)'',
                       err_DebateID = ''debate-d1'', Recoverable = True\<rparr>) \<and>
   map_option (\<lambda>a. (TimeoutTimer a, InactivityTimer a, LastActivityTime a, DebateLog a,
                     LastSpeaker a))
     (theDebate afterShortSpeech) = Some (Some Stopped, Some (Running 1850), 50, [], '''') \<and>
   fireTimeoutTimer exampleEnv 123 ''debate-d1'' afterShortSpeech = (afterShortSpeech, Returns ()) \<and>
   map_option (\<lambda>a. (TimeoutTimer a, InactivityTimer a))
     (theDebate (fst (HandleSpeech exampleEnv 50
        (speechOf ''alpha-uuid0001'' ''key-a'' ''this speech is far too long'') started)))
     = Some (Some Stopped, Some (Running 1850))"
proof -
  have t: "map_option TimeoutTimer (theDebate afterShortSpeech) = Some (Some Stopped)"
    by code_simp
  have f: "fireTimeoutTimer exampleEnv 123 ''debate-d1'' afterShortSpeech =
             (afterShortSpeech, Returns ())"
    using t by (auto simp: fireTimeoutTimer_def theDebate_def)
  have rest: "map_option (\<lambda>a. (TimeoutTimer a, InactivityTimer a, LastActivityTime a, DebateLog a,
                     LastSpeaker a))
     (theDebate started) = Some (Some (Running 123), Some (Running 1803), 3, [], '''') \<and>
   snd (HandleSpeech exampleEnv 50 (speechOf ''alpha-uuid0001'' ''key-a'' ''hi'') started)
     = Returns (Some \<lparr>ErrorCode = ''CONTENT_TOO_SHORT'',
                       err_Message = ''Speech content too short (minimum 5 characters)'',
                       err_DebateID = ''debate-d1'', Recoverable = True\<rparr>) \<and>
   map_option (\<lambda>a. (TimeoutTimer a, InactivityTimer a, LastActivityTime a, DebateLog a,
                     LastSpeaker a))
     (theDebate afterShortSpeech) = Some (Some Stopped, Some (Running 1850), 50, [], '''') \<and>
   map_option (\<lambda>a. (TimeoutTimer a, InactivityTimer a))
     (theDebate (fst (HandleSpeech exampleEnv 50
        (speechOf ''alpha-uuid0001'' ''key-a'' ''this speech is far too long'') started)))
     = Some (Some Stopped, Some (Running 1850))"
    by code_simp
  from rest f show ?thesis by simp
qed

end
